theory Spec2Isabelle
  imports Main "HOL-Library.Char_ord" "HOL-Library.List_Lexorder" "HOL-Library.Sublist"
begin

section \<open>Data models (rm\_data.py)\<close>

text \<open>
  Python strings are modelled as \<^typ>\<open>string\<close>; a string is truthy exactly when it is
  not the empty list. The dataclass \<open>Book\<close> becomes a record with the source's
  fields (\<open>size\<close> is renamed \<open>book_size\<close>, since \<open>size\<close> is a constant of HOL; the
  timestamp is kept as the tuple of its components, the thumbnail as an optional blob).
\<close>

record book =
  title :: string
  uuid :: string
  rm_uuid :: string
  authors :: "string list"
  author_sort :: string
  book_size :: int
  datetime :: "int list"
  thumbnail :: "string option"
  tags :: "string list"
  path :: string
  device_collections :: "string list"
  in_library :: "string option"

text \<open>
  \<open>Book.__eq__\<close> for an \<open>other\<close> that is a Book (the \<open>isinstance\<close> guard
  answers \<open>NotImplemented\<close> for anything else, which the type of the second argument
  excludes). The three \<open>if\<close> statements of the source are kept in their order.
\<close>

definition Book_eq :: "book \<Rightarrow> book \<Rightarrow> bool" where
  "Book_eq self other =
     (if rm_uuid self \<noteq> [] \<and> rm_uuid other \<noteq> [] \<and> rm_uuid self = rm_uuid other then True
      else if uuid self \<noteq> [] \<and> uuid other \<noteq> [] \<and> uuid self = uuid other then True
      else if path self \<noteq> [] \<and> path other \<noteq> [] \<and> path self \<noteq> ''/'' \<and> path other \<noteq> ''/''
              \<and> path self = path other then True
      else False)"

text \<open>The dataclass constructor \<open>Book(title, uuid, rm_uuid="", ..., path="/")\<close> with the
  defaults of the remaining fields.\<close>

definition Book :: "string \<Rightarrow> string \<Rightarrow> string \<Rightarrow> string \<Rightarrow> book" where
  "Book t u r p =
     \<lparr>title = t, uuid = u, rm_uuid = r, authors = [], author_sort = [], book_size = 0,
      datetime = [], thumbnail = None, tags = [], path = p, device_collections = [],
      in_library = None\<rparr>"

text \<open>The three Books of the transitivity example: \<open>A\<close> carries only the device id
  \<open>x\<close>, \<open>B\<close> the device id \<open>x\<close> and the library id \<open>y\<close>, \<open>C\<close> only the library
  id \<open>y\<close>; all three keep the default path \<open>/\<close>.\<close>

definition book_A :: book where
  "book_A = Book ''A'' [] ''x'' ''/''"

definition book_B :: book where
  "book_B = Book ''B'' ''y'' ''x'' ''/''"

definition book_C :: book where
  "book_C = Book ''C'' ''y'' [] ''/''"

text \<open>A Book that carries no usable identifier: \<open>Book(title="t", uuid="")\<close>, with the
  defaults \<open>rm_uuid=""\<close> and \<open>path="/"\<close>.\<close>

definition book_anon :: book where
  "book_anon = Book ''t'' [] [] ''/''"

section \<open>Errors, effects and string helpers\<close>

text \<open>
  Every exception the modelled code can raise is a value. \<open>OSError\<close> stands for the
  failures of the network and of the file system (\<open>URLError\<close>, a timeout, a missing
  file); \<open>HTTPError\<close> carries the status code and the decoded response body;
  \<open>ValueError\<close> is what \<open>json.loads\<close> raises, and with \<open>LookupError\<close> what the XML
  parser raises on a declared encoding it cannot read; \<open>UserFeedback\<close> carries
  Calibre's message, details and level.
\<close>

datatype error =
    KeyError string
  | OSError string
  | HTTPError int string
  | RuntimeError string
  | TimeoutError string
  | ValueError string
  | LookupError string
  | ParseError
  | BadZipFile
  | UserFeedback string string string

text \<open>
  What the code does to the world, in the order it does it: the two requests of the
  wire protocol (\<open>GET /documents/{id}\<close> with the id, \<open>POST /upload\<close> with the file
  name and the \<open>Content-Length\<close>), log records of level \<open>WARNING\<close> and above (level
  and message), the messages handed to the crawler's progress callback, runs of the
  external converter (the command line), deletions of temporary files, and the
  \<open>GET\<close> that \<open>urllib\<close> sends by itself when it follows a redirect (with the status it
  follows). Calls of \<open>report_progress\<close> compute with floats and decide nothing; they
  are left out.
\<close>

datatype event =
    GET string
  | POST string nat
  | Log string string
  | ScanProgress string
  | Run "string list"
  | Unlink string
  | Redirect int

text \<open>Python's \<open>str\<close> of an integer (also what \<open>%d\<close> and an f-string print).\<close>

fun str_nat :: "nat \<Rightarrow> string" where
  "str_nat n = (if n < 10 then [''0123456789'' ! n] else str_nat (n div 10) @ [''0123456789'' ! (n mod 10)])"

declare str_nat.simps [simp del]

definition str_int :: "int \<Rightarrow> string" where
  "str_int i = (if i < 0 then ''-'' @ str_nat (nat (- i)) else str_nat (nat i))"

section \<open>Device document model and crawler (rm\_web\_interface.py)\<close>

definition COLLECTION :: string where
  "COLLECTION = ''CollectionType''"

definition DOCUMENT :: string where
  "DOCUMENT = ''DocumentType''"

record DeviceEntry =
  entry_id :: string
  parent_id :: string
  name :: string
  entry_type :: string
  file_type :: string

text \<open>
  One element of a listing response is a JSON object, read as a dictionary from keys
  to values; the values of the fields the code reads are JSON strings.
  \<open>raw["ID"]\<close> raises \<open>KeyError\<close> when the key is missing, \<open>raw.get(k, d)\<close>
  falls back to \<open>d\<close>.
\<close>

type_synonym raw = "string \<rightharpoonup> string"

definition dict_get :: "raw \<Rightarrow> string \<Rightarrow> string \<Rightarrow> string" where
  "dict_get r k d = (case r k of None \<Rightarrow> d | Some v \<Rightarrow> v)"

definition from_json :: "raw \<Rightarrow> error + DeviceEntry" where
  "from_json r =
     (case r ''ID'' of
        None \<Rightarrow> Inl (KeyError ''ID'')
      | Some i \<Rightarrow>
          Inr \<lparr>entry_id = i,
               parent_id = dict_get r ''Parent'' [],
               name = dict_get r ''VissibleName'' [],
               entry_type = dict_get r ''Type'' DOCUMENT,
               file_type = dict_get r ''fileType'' []\<rparr>)"

definition is_folder :: "DeviceEntry \<Rightarrow> bool" where
  "is_folder e = (entry_type e = COLLECTION)"

text \<open>The list comprehension \<open>[DeviceEntry.from_json(r) for r in raw_list]\<close>: the first
  element that raises ends it.\<close>

fun from_json_all :: "raw list \<Rightarrow> error + DeviceEntry list" where
  "from_json_all [] = Inr []"
| "from_json_all (r # rs) =
     (case from_json r of
        Inl e \<Rightarrow> Inl e
      | Inr x \<Rightarrow> (case from_json_all rs of Inl e \<Rightarrow> Inl e | Inr xs \<Rightarrow> Inr (x # xs)))"

datatype FileTree = FileTree (entries: "FileTreeNode list")
  and FileTreeNode = FileTreeNode (entry: DeviceEntry) (subtree: FileTree)

text \<open>
  \<open>build_file_tree\<close>. The device's answer to \<open>GET /documents/{id}\<close> is the parameter
  \<open>fetch\<close> (the result of \<open>fetch_documents(ip, id)\<close>, an error when the request or
  the decoding of its answer raises). The function returns what the call returns or
  raises, the value of the shared \<open>_counter\<close> afterwards and the events of the call.
  \<open>cb\<close> says whether a progress callback was given. The \<open>for\<close> loop over the sorted
  entries is \<open>build_nodes\<close>; \<open>list.sort(key=...)\<close> is stable, as \<open>sort_key\<close> is.
\<close>

function build_file_tree ::
    "(string \<Rightarrow> error + raw list) \<Rightarrow> string \<Rightarrow> int \<Rightarrow> int \<Rightarrow> bool \<Rightarrow> nat
      \<Rightarrow> (error + FileTree) \<times> nat \<times> event list"
  and build_nodes ::
    "(string \<Rightarrow> error + raw list) \<Rightarrow> DeviceEntry list \<Rightarrow> int \<Rightarrow> int \<Rightarrow> bool \<Rightarrow> nat
      \<Rightarrow> (error + FileTreeNode list) \<times> nat \<times> event list"
where
  "build_file_tree fetch root_id depth max_depth cb counter =
     (if depth \<ge> max_depth then
        (Inr (FileTree []), counter,
         [Log ''WARNING'' (''Max folder depth ('' @ str_int max_depth @ '') reached, stopping recursion'')])
      else
        (case fetch root_id of
           Inl e \<Rightarrow> (Inl e, counter, [GET root_id])
         | Inr raw_list \<Rightarrow>
             (case from_json_all raw_list of
                Inl e \<Rightarrow> (Inl e, counter, [GET root_id])
              | Inr es \<Rightarrow>
                  (let sorted_entries = sort_key parent_id es;
                       counter' = counter + length sorted_entries;
                       evs = GET root_id #
                         (if cb then [ScanProgress (''Scanning reMarkable... '' @ str_nat counter' @ '' items found'')]
                          else [])
                   in (case build_nodes fetch sorted_entries depth max_depth cb counter' of
                         (Inl e, c, evs') \<Rightarrow> (Inl e, c, evs @ evs')
                       | (Inr nodes, c, evs') \<Rightarrow> (Inr (FileTree nodes), c, evs @ evs'))))))"
| "build_nodes fetch [] depth max_depth cb counter = (Inr [], counter, [])"
| "build_nodes fetch (e # es) depth max_depth cb counter =
     (if is_folder e then
        (case build_file_tree fetch (entry_id e) (depth + 1) max_depth cb counter of
           (Inl err, c, evs) \<Rightarrow> (Inl err, c, evs)
         | (Inr sub, c, evs) \<Rightarrow>
             (case build_nodes fetch es depth max_depth cb c of
                (Inl err, c', evs') \<Rightarrow> (Inl err, c', evs @ evs')
              | (Inr nodes, c', evs') \<Rightarrow> (Inr (FileTreeNode e sub # nodes), c', evs @ evs')))
      else
        (case build_nodes fetch es depth max_depth cb counter of
           (Inl err, c', evs') \<Rightarrow> (Inl err, c', evs')
         | (Inr nodes, c', evs') \<Rightarrow> (Inr (FileTreeNode e (FileTree []) # nodes), c', evs')))"
  by pat_completeness auto
termination
  by (relation "inv_image (less_than <*lex*> less_than)
        (\<lambda>x. case x of
           Inl (fetch, root_id, depth, max_depth, cb, counter) \<Rightarrow> (2 * nat (max_depth - depth), 0)
         | Inr (fetch, es, depth, max_depth, cb, counter) \<Rightarrow> (2 * nat (max_depth - depth - 1) + 1, length es))")
     auto

declare build_file_tree.simps [simp del]

text \<open>The number of levels of a tree, and uniqueness of the entry ids within every
  level of a tree.\<close>

fun tree_depth :: "FileTree \<Rightarrow> nat"
  and nodes_depth :: "FileTreeNode list \<Rightarrow> nat"
  and node_depth :: "FileTreeNode \<Rightarrow> nat" where
  "tree_depth (FileTree ns) = nodes_depth ns"
| "nodes_depth [] = 0"
| "nodes_depth (n # ns) = max (node_depth n) (nodes_depth ns)"
| "node_depth (FileTreeNode e t) = Suc (tree_depth t)"

fun unique_levels :: "FileTree \<Rightarrow> bool"
  and unique_levels_nodes :: "FileTreeNode list \<Rightarrow> bool" where
  "unique_levels (FileTree ns) =
     (distinct (map (\<lambda>n. entry_id (entry n)) ns) \<and> unique_levels_nodes ns)"
| "unique_levels_nodes [] = True"
| "unique_levels_nodes (FileTreeNode e t # ns) = (unique_levels t \<and> unique_levels_nodes ns)"

text \<open>A cyclic device: every folder, the root included, lists one folder with the id
  \<open>a\<close>, so the folder \<open>a\<close> contains itself.\<close>

definition cyclic_listing :: "string \<Rightarrow> error + raw list" where
  "cyclic_listing i =
     Inr [[''ID'' \<mapsto> ''a'', ''Type'' \<mapsto> ''CollectionType'', ''VissibleName'' \<mapsto> ''loop'']]"

definition loop_entry :: DeviceEntry where
  "loop_entry = \<lparr>entry_id = ''a'', parent_id = [], name = ''loop'',
                  entry_type = ''CollectionType'', file_type = []\<rparr>"

text \<open>A device with two levels of several entries each: the root lists the document
  \<open>d1\<close>, the folder \<open>f1\<close> and the document \<open>d2\<close>, the folder \<open>f1\<close> lists the documents
  \<open>d3\<close> and \<open>d4\<close>; no listing repeats an id.\<close>

definition library_listing :: "string \<Rightarrow> error + raw list" where
  "library_listing i =
     (if i = [] then
        Inr [[''ID'' \<mapsto> ''d1'', ''VissibleName'' \<mapsto> ''Notes''],
             [''ID'' \<mapsto> ''f1'', ''Type'' \<mapsto> ''CollectionType'', ''VissibleName'' \<mapsto> ''Books''],
             [''ID'' \<mapsto> ''d2'', ''VissibleName'' \<mapsto> ''Sketch'']]
      else if i = ''f1'' then
        Inr [[''ID'' \<mapsto> ''d3'', ''Parent'' \<mapsto> ''f1'', ''VissibleName'' \<mapsto> ''Novel''],
             [''ID'' \<mapsto> ''d4'', ''Parent'' \<mapsto> ''f1'', ''VissibleName'' \<mapsto> ''Essay'']]
      else Inr [])"

definition doc_entry :: "string \<Rightarrow> string \<Rightarrow> string \<Rightarrow> DeviceEntry" where
  "doc_entry i p n = \<lparr>entry_id = i, parent_id = p, name = n,
                       entry_type = ''DocumentType'', file_type = []\<rparr>"

definition library_tree :: FileTree where
  "library_tree =
     FileTree
       [FileTreeNode (doc_entry ''d1'' [] ''Notes'') (FileTree []),
        FileTreeNode \<lparr>entry_id = ''f1'', parent_id = [], name = ''Books'',
                       entry_type = ''CollectionType'', file_type = []\<rparr>
          (FileTree [FileTreeNode (doc_entry ''d3'' ''f1'' ''Novel'') (FileTree []),
                     FileTreeNode (doc_entry ''d4'' ''f1'' ''Essay'') (FileTree [])]),
        FileTreeNode (doc_entry ''d2'' [] ''Sketch'') (FileTree [])]"

text \<open>A device whose listing names the id \<open>a\<close> twice at one level.\<close>

definition dup_listing :: "string \<Rightarrow> error + raw list" where
  "dup_listing i =
     Inr [[''ID'' \<mapsto> ''a'', ''VissibleName'' \<mapsto> ''one''],
          [''ID'' \<mapsto> ''a'', ''VissibleName'' \<mapsto> ''two'']]"

definition dup_entry :: "string \<Rightarrow> DeviceEntry" where
  "dup_entry n = \<lparr>entry_id = ''a'', parent_id = [], name = n,
                   entry_type = ''DocumentType'', file_type = []\<rparr>"

section \<open>Paths and texts (the standard library, on a POSIX host)\<close>

text \<open>
  A Python \<open>str\<close> is represented by the bytes of its UTF-8 encoding, so
  \<open>s.encode()\<close> and \<open>b.decode("utf-8")\<close> of well-formed text are the identity, and
  \<open>x in s\<close>, \<open>startswith\<close> and \<open>endswith\<close> are \<open>sublist\<close>, \<open>prefix\<close> and
  \<open>suffix\<close>. \<open>os.path\<close> is \<open>posixpath\<close>.
\<close>

definition os_path_basename :: "string \<Rightarrow> string" where
  "os_path_basename p = rev (takeWhile (\<lambda>c. c \<noteq> CHR ''/'') (rev p))"

definition posixpath_dirname :: "string \<Rightarrow> string" where
  "posixpath_dirname p =
     (let head = rev (dropWhile (\<lambda>c. c \<noteq> CHR ''/'') (rev p))
      in if head \<noteq> [] \<and> \<not> list_all (\<lambda>c. c = CHR ''/'') head
         then rev (dropWhile (\<lambda>c. c = CHR ''/'') (rev head))
         else head)"

definition posixpath_join :: "string \<Rightarrow> string \<Rightarrow> string" where
  "posixpath_join a b =
     (if prefix ''/'' b then b
      else if a = [] \<or> suffix ''/'' a then a @ b
      else a @ ''/'' @ b)"

definition os_path_splitext :: "string \<Rightarrow> string \<times> string" where
  "os_path_splitext p =
     (let base = os_path_basename p;
          after_dot = length (takeWhile (\<lambda>c. c \<noteq> CHR ''.'') (rev base))
      in if CHR ''.'' \<in> set base
            \<and> \<not> list_all (\<lambda>c. c = CHR ''.'') (take (length base - after_dot - 1) base)
         then (take (length p - after_dot - 1) p, drop (length p - after_dot - 1) p)
         else (p, []))"

text \<open>\<open>str.lower\<close> on the ASCII letters; other bytes are kept.\<close>

definition ascii_lower :: "string \<Rightarrow> string" where
  "ascii_lower s =
     map (\<lambda>c. if CHR ''A'' \<le> c \<and> c \<le> CHR ''Z'' then char_of (of_char c + (32::nat)) else c) s"

text \<open>Truthiness of an optional string: \<open>None\<close> and the empty string are falsy.\<close>

definition truthy :: "string option \<Rightarrow> bool" where
  "truthy x = (case x of None \<Rightarrow> False | Some s \<Rightarrow> s \<noteq> [])"

section \<open>XML elements (xml.etree.ElementTree)\<close>

text \<open>
  An element is its tag (in Clark notation, \<open>{namespace}local\<close>), its attributes and
  its child elements; the code reads and writes nothing else of a document. The parser
  \<open>ET.fromstring\<close> and the serialiser \<open>ET.tostring(...).encode("utf-8")\<close> belong to
  the library and are parameters of the functions below. The parser answers with the
  root element or with the exception it raises: \<open>ParseError\<close> on a malformed document,
  \<open>ValueError\<close> or \<open>LookupError\<close> on a declared encoding it does not support.
\<close>

datatype element = Element (tag: string) (attrib: "(string \<times> string) list") (children: "element list")

definition get_attr :: "element \<Rightarrow> string \<Rightarrow> string option" where
  "get_attr e k = map_of (attrib e) k"

definition get_attr_default :: "element \<Rightarrow> string \<Rightarrow> string \<Rightarrow> string" where
  "get_attr_default e k d = (case get_attr e k of None \<Rightarrow> d | Some v \<Rightarrow> v)"

text \<open>\<open>e.iter()\<close>: the element and its descendants in document order.\<close>

fun iter_all :: "element \<Rightarrow> element list" where
  "iter_all (Element t a cs) = Element t a cs # concat (map iter_all cs)"

definition iter_tag :: "string \<Rightarrow> element \<Rightarrow> element list" where
  "iter_tag t e = filter (\<lambda>x. tag x = t) (iter_all e)"

text \<open>\<open>e.find(tag)\<close> and \<open>e.findall(tag)\<close> look at the direct children;
  \<open>e.find(".//tag")\<close> looks at all descendants.\<close>

definition find_child :: "string \<Rightarrow> element \<Rightarrow> element option" where
  "find_child t e = List.find (\<lambda>x. tag x = t) (children e)"

definition findall :: "string \<Rightarrow> element \<Rightarrow> element list" where
  "findall t e = filter (\<lambda>x. tag x = t) (children e)"

definition find_descendant :: "string \<Rightarrow> element \<Rightarrow> element option" where
  "find_descendant t e = List.find (\<lambda>x. tag x = t) (concat (map iter_all (children e)))"

text \<open>The in-place change of the element that \<open>e.find(tag)\<close> returned: the first child
  with that tag is replaced by its changed version.\<close>

fun update_first :: "string \<Rightarrow> (element \<Rightarrow> element) \<Rightarrow> element list \<Rightarrow> element list" where
  "update_first t f [] = []"
| "update_first t f (c # cs) = (if tag c = t then f c # cs else c # update_first t f cs)"

definition update_child :: "string \<Rightarrow> (element \<Rightarrow> element) \<Rightarrow> element \<Rightarrow> element" where
  "update_child t f e = Element (tag e) (attrib e) (update_first t f (children e))"

definition append_child :: "element \<Rightarrow> element \<Rightarrow> element" where
  "append_child c e = Element (tag e) (attrib e) (children e @ [c])"

definition insert_first :: "element \<Rightarrow> element \<Rightarrow> element" where
  "insert_first c e = Element (tag e) (attrib e) (c # children e)"

section \<open>EPUB preparation (rm\_web\_interface.py)\<close>

text \<open>
  A ZIP archive as \<open>zipfile\<close> presents it: the entries in the order of \<open>infolist()\<close>,
  each with its name, its bytes, its compression method and its extra field.
  \<open>zf.read(name)\<close> answers with the entry that \<open>NameToInfo\<close> holds for the name, the
  last one of that name, and raises \<open>KeyError\<close> (here \<open>None\<close>) when there is none;
  the entries of an archive that could be opened are taken to be readable.
\<close>

record zentry =
  filename :: string
  data :: string
  compress_type :: nat
  extra :: string

definition ZIP_STORED :: nat where
  "ZIP_STORED = 0"

definition ZIP_DEFLATED :: nat where
  "ZIP_DEFLATED = 8"

definition zread :: "zentry list \<Rightarrow> string \<Rightarrow> string option" where
  "zread zf n = (case filter (\<lambda>i. filename i = n) zf of [] \<Rightarrow> None | x # xs \<Rightarrow> Some (data (last (x # xs))))"

text \<open>A file is a readable ZIP archive or any other sequence of bytes, on which
  \<open>zipfile.ZipFile\<close> raises \<open>BadZipFile\<close>.\<close>

datatype filedata = Blob string | Archive "zentry list"

type_synonym filesystem = "string \<rightharpoonup> filedata"

definition OPF_NS :: string where
  "OPF_NS = ''http://www.idpf.org/2007/opf''"

definition CONTAINER_NS :: string where
  "CONTAINER_NS = ''urn:oasis:names:tc:opendocument:xmlns:container''"

definition opf_tag :: "string \<Rightarrow> string" where
  "opf_tag n = ''{'' @ OPF_NS @ ''}'' @ n"

definition COVER_PAGE_HTML :: "string \<Rightarrow> string" where
  \<open>COVER_PAGE_HTML href =
     ''<?xml version="1.0" encoding="UTF-8"?>\<newline>'' @
     ''<html xmlns="http://www.w3.org/1999/xhtml">\<newline>'' @
     ''<head><title>Cover</title></head>\<newline>'' @
     ''<body style="margin:0;padding:0;">\<newline>'' @
     ''<div style="text-align:center;">\<newline>'' @
     ''<img src="'' @ href @ ''" style="max-width:100%;max-height:100%;" alt="Cover"/>\<newline>'' @
     ''</div>\<newline>'' @
     ''</body>\<newline>'' @
     ''</html>\<newline>''\<close>

text \<open>The two exceptions that \<open>_locate_opf\<close> and the cover injection of
  \<open>_prepare_epub\<close> catch: \<open>except (KeyError, ET.ParseError)\<close>.\<close>

definition key_or_parse_error :: "error \<Rightarrow> bool" where
  "key_or_parse_error e = (case e of KeyError k \<Rightarrow> True | ParseError \<Rightarrow> True | _ \<Rightarrow> False)"

text \<open>\<open>_locate_opf\<close>: the path of the package document, \<open>None\<close>, or the exception of
  the parser that the \<open>except\<close> clause does not catch.\<close>

definition locate_opf :: "(string \<Rightarrow> error + element) \<Rightarrow> zentry list \<Rightarrow> error + string option" where
  "locate_opf parse zf =
     (let first_opf =
            (case List.find (\<lambda>item. suffix ''.opf'' (filename item)) zf of
               None \<Rightarrow> None
             | Some item \<Rightarrow> Some (filename item))
      in case zread zf ''META-INF/container.xml'' of
           None \<Rightarrow> Inr first_opf
         | Some bytes \<Rightarrow>
             (case parse bytes of
                Inl e \<Rightarrow> if key_or_parse_error e then Inr first_opf else Inl e
              | Inr container \<Rightarrow>
                  (case find_descendant (''{'' @ CONTAINER_NS @ ''}rootfile'') container of
                     Some rootfile \<Rightarrow> Inr (get_attr rootfile ''full-path'')
                   | None \<Rightarrow> Inr first_opf)))"

text \<open>The content of the first \<open>meta\<close> element with \<open>name="cover"\<close> among the elements
  of the given tag (the first search loop of \<open>_ensure_cover_page\<close>), and the cover id
  after the second loop, which runs when the first left a falsy value and keeps that
  value when it finds no such element.\<close>

definition cover_meta :: "string \<Rightarrow> element \<Rightarrow> string option" where
  "cover_meta t root =
     (case List.find (\<lambda>m. get_attr m ''name'' = Some ''cover'') (iter_tag t root) of
        None \<Rightarrow> None
      | Some m \<Rightarrow> get_attr m ''content'')"

definition cover_image_id :: "element \<Rightarrow> string option" where
  "cover_image_id root =
     (let c = cover_meta (opf_tag ''meta'') root
      in if \<not> truthy c then
           (case List.find (\<lambda>m. get_attr m ''name'' = Some ''cover'') (iter_tag ''meta'' root) of
              None \<Rightarrow> c
            | Some m \<Rightarrow> get_attr m ''content'')
         else c)"

text \<open>The manifest lookup of the cover image: the first item with the cover id decides.\<close>

definition cover_image_href :: "element \<Rightarrow> string \<Rightarrow> string option" where
  "cover_image_href manifest cover_img_id =
     (case List.find (\<lambda>item. get_attr item ''id'' = Some cover_img_id) (findall (opf_tag ''item'') manifest) of
        None \<Rightarrow> None
      | Some item \<Rightarrow>
          if prefix ''image/'' (get_attr_default item ''media-type'' []) then get_attr item ''href''
          else None)"

text \<open>The check whether the first page in reading order already shows the cover.\<close>

definition first_page_has_cover ::
    "zentry list \<Rightarrow> string \<Rightarrow> element \<Rightarrow> element \<Rightarrow> string \<Rightarrow> bool" where
  "first_page_has_cover zf opf_path manifest spine cover_href =
     (let first_ref_id = get_attr_default (hd (children spine)) ''idref'' []
      in case List.find (\<lambda>item. get_attr item ''id'' = Some first_ref_id) (findall (opf_tag ''item'') manifest) of
           None \<Rightarrow> False
         | Some item \<Rightarrow>
             (let href = get_attr_default item ''href'' [];
                  opf_dir = posixpath_dirname opf_path;
                  full = (if opf_dir \<noteq> [] then posixpath_join opf_dir href else href)
              in case zread zf full of
                   None \<Rightarrow> False
                 | Some page_text \<Rightarrow> sublist cover_href page_text))"

text \<open>The patch of the package document: a manifest item, a first spine reference and a
  guide reference for the new page.\<close>

definition patch_opf :: "element \<Rightarrow> element" where
  "patch_opf root =
     (let new_item = Element (opf_tag ''item'')
            [(''id'', ''rm-cover-page''), (''href'', ''rm_cover.xhtml''),
             (''media-type'', ''application/xhtml+xml'')] [];
          ref = Element (opf_tag ''itemref'') [(''idref'', ''rm-cover-page'')] [];
          guide_ref = Element (opf_tag ''reference'')
            [(''type'', ''cover''), (''title'', ''Cover''), (''href'', ''rm_cover.xhtml'')] [];
          root1 = update_child (opf_tag ''manifest'') (append_child new_item) root;
          root2 = update_child (opf_tag ''spine'') (insert_first ref) root1
      in case find_child (opf_tag ''guide'') root2 of
           None \<Rightarrow> append_child (Element (opf_tag ''guide'') [] [guide_ref]) root2
         | Some guide \<Rightarrow> update_child (opf_tag ''guide'') (append_child guide_ref) root2)"

text \<open>
  \<open>_ensure_cover_page\<close> (an identifier of Isabelle cannot start with an underscore, so
  the private functions and constants of the source lose theirs). It returns the
  patched package document, if any, and the new files, or raises.
\<close>

definition ensure_cover_page ::
    "(string \<Rightarrow> error + element) \<Rightarrow> (element \<Rightarrow> string) \<Rightarrow> zentry list \<Rightarrow> string \<Rightarrow> string
      \<Rightarrow> error + (string option \<times> (string \<times> string) list)" where
  "ensure_cover_page parse tostring zf opf_path opf_bytes =
     (case parse opf_bytes of
        Inl e \<Rightarrow> Inl e
      | Inr root \<Rightarrow>
          (case cover_image_id root of
             None \<Rightarrow> Inr (None, [])
           | Some cover_img_id \<Rightarrow>
               if cover_img_id = [] then Inr (None, [])
               else
                 (case find_child (opf_tag ''manifest'') root of
                    None \<Rightarrow> Inr (None, [])
                  | Some manifest \<Rightarrow>
                      (case cover_image_href manifest cover_img_id of
                         None \<Rightarrow> Inr (None, [])
                       | Some cover_href \<Rightarrow>
                           if cover_href = [] then Inr (None, [])
                           else
                             (case find_child (opf_tag ''spine'') root of
                                None \<Rightarrow> Inr (None, [])
                              | Some spine \<Rightarrow>
                                  if children spine = [] then Inr (None, [])
                                  else if first_page_has_cover zf opf_path manifest spine cover_href
                                  then Inr (None, [])
                                  else
                                    (let opf_dir = posixpath_dirname opf_path;
                                         page_zip_path =
                                           (if opf_dir \<noteq> [] then posixpath_join opf_dir ''rm_cover.xhtml''
                                            else ''rm_cover.xhtml'')
                                     in Inr (Some (tostring (patch_opf root)),
                                             [(page_zip_path, COVER_PAGE_HTML cover_href)])))))))"

text \<open>An entry as \<open>dst.writestr(name, data, compress_type=ZIP_DEFLATED)\<close> writes it, and
  the marker entry written from a fresh \<open>ZipInfo("mimetype")\<close>.\<close>

definition deflated :: "string \<Rightarrow> string \<Rightarrow> zentry" where
  "deflated n d = \<lparr>filename = n, data = d, compress_type = ZIP_DEFLATED, extra = []\<rparr>"

definition mimetype_entry :: zentry where
  "mimetype_entry =
     \<lparr>filename = ''mimetype'', data = ''application/epub+zip'', compress_type = ZIP_STORED, extra = []\<rparr>"

text \<open>The cover injection step of \<open>_prepare_epub\<close>: \<open>patched_opf\<close> and \<open>new_files\<close>
  after the inner \<open>try\<close>, which catches \<open>KeyError\<close> and \<open>ParseError\<close>, or the exception
  that leaves it.\<close>

definition inject_step ::
    "(string \<Rightarrow> error + element) \<Rightarrow> (element \<Rightarrow> string) \<Rightarrow> zentry list \<Rightarrow> string option \<Rightarrow> bool
      \<Rightarrow> error + (string option \<times> (string \<times> string) list)" where
  "inject_step parse tostring src opf_path inject_cover =
     (if truthy opf_path \<and> inject_cover then
        (case zread src (the opf_path) of
           None \<Rightarrow> Inr (None, [])
         | Some opf_bytes \<Rightarrow>
             (case ensure_cover_page parse tostring src (the opf_path) opf_bytes of
                Inl e \<Rightarrow> if key_or_parse_error e then Inr (None, []) else Inl e
              | Inr r \<Rightarrow> Inr r))
      else Inr (None, []))"

text \<open>The entries \<open>_prepare_epub\<close> writes: the marker, then every entry of the source but
  its \<open>mimetype\<close>, with the patched package document in place of the original, then
  the new files.\<close>

definition repackaged ::
    "zentry list \<Rightarrow> string option \<Rightarrow> string option \<Rightarrow> (string \<times> string) list \<Rightarrow> zentry list" where
  "repackaged src opf_path patched_opf new_files =
     mimetype_entry #
     map (\<lambda>item. deflated (filename item)
            (if truthy patched_opf \<and> Some (filename item) = opf_path then the patched_opf
             else the (zread src (filename item))))
         (filter (\<lambda>item. filename item \<noteq> ''mimetype'') src)
     @ map (\<lambda>(fname, fdata). deflated fname fdata) new_files"

text \<open>
  \<open>_prepare_epub\<close>. \<open>lower\<close> is \<open>str.lower\<close>, \<open>tmp\<close> the name of the temporary file
  that \<open>NamedTemporaryFile\<close> creates. The result is the returned pair or the exception
  (only \<open>BadZipFile\<close> is caught, and answered with the path itself), together with the
  file system afterwards.
\<close>

definition prepare_epub ::
    "(string \<Rightarrow> string) \<Rightarrow> (string \<Rightarrow> error + element) \<Rightarrow> (element \<Rightarrow> string) \<Rightarrow> string
      \<Rightarrow> filesystem \<Rightarrow> string \<Rightarrow> bool \<Rightarrow> (error + string \<times> string option) \<times> filesystem" where
  "prepare_epub lower parse tostring tmp fs path' inject_cover =
     (if \<not> suffix ''.epub'' (lower path') then (Inr (path', None), fs)
      else
        (case fs path' of
           None \<Rightarrow> (Inl (OSError path'), fs)
         | Some (Blob b) \<Rightarrow> (Inr (path', None), fs)
         | Some (Archive src) \<Rightarrow>
             (case locate_opf parse src of
                Inl e \<Rightarrow> (Inl e, fs)
              | Inr opf_path \<Rightarrow>
                  (case inject_step parse tostring src opf_path inject_cover of
                     Inl e \<Rightarrow> (Inl e, fs)
                   | Inr (patched_opf, new_files) \<Rightarrow>
                       (Inr (tmp, Some tmp),
                        fs(tmp \<mapsto> Archive (repackaged src opf_path patched_opf new_files)))))))"

text \<open>
  An archive whose manifest already uses the id \<open>rm-cover-page\<close> for another page: a
  cover image \<open>cover.jpg\<close> is declared, the reading order starts with \<open>ch1.xhtml\<close>,
  and the item \<open>rm-cover-page\<close> is \<open>intro.xhtml\<close>, which does not show the cover.
  \<open>collide_opf\<close> is the package document, \<open>collide_src\<close> the archive around its bytes.
\<close>

definition collide_opf :: element where
  "collide_opf =
     Element (opf_tag ''package'') []
       [Element (opf_tag ''metadata'') []
          [Element (opf_tag ''meta'') [(''name'', ''cover''), (''content'', ''cover-img'')] []],
        Element (opf_tag ''manifest'') []
          [Element (opf_tag ''item'')
             [(''id'', ''cover-img''), (''href'', ''cover.jpg''), (''media-type'', ''image/jpeg'')] [],
           Element (opf_tag ''item'')
             [(''id'', ''rm-cover-page''), (''href'', ''intro.xhtml''),
              (''media-type'', ''application/xhtml+xml'')] [],
           Element (opf_tag ''item'')
             [(''id'', ''ch1''), (''href'', ''ch1.xhtml''), (''media-type'', ''application/xhtml+xml'')] []],
        Element (opf_tag ''spine'') []
          [Element (opf_tag ''itemref'') [(''idref'', ''ch1'')] []]]"

definition collide_src :: "string \<Rightarrow> zentry list" where
  "collide_src opf_bytes =
     [deflated ''content.opf'' opf_bytes,
      deflated ''mimetype'' ''application/epub+zip'',
      deflated ''intro.xhtml'' ''<html><body>Introduction</body></html>'',
      deflated ''ch1.xhtml'' ''<html><body>Chapter 1</body></html>'',
      deflated ''cover.jpg'' ''JFIF'']"

text \<open>What the first pass writes for that archive.\<close>

definition collide_out :: "(element \<Rightarrow> string) \<Rightarrow> zentry list" where
  "collide_out tostring =
     [mimetype_entry,
      deflated ''content.opf'' (tostring (patch_opf collide_opf)),
      deflated ''intro.xhtml'' ''<html><body>Introduction</body></html>'',
      deflated ''ch1.xhtml'' ''<html><body>Chapter 1</body></html>'',
      deflated ''cover.jpg'' ''JFIF'',
      deflated ''rm_cover.xhtml'' (COVER_PAGE_HTML ''cover.jpg'')]"

text \<open>The text of that package document, and a parser and a serialiser that know the
  three documents of the example (an instance of the library's two functions). The
  parser rejects a document that declares the encoding \<open>gb2312\<close> with \<open>ValueError\<close>, as
  \<open>ElementTree\<close> does, and everything else with \<open>ParseError\<close>.\<close>

definition collide_opf_text :: string where
  \<open>collide_opf_text =
     ''<package xmlns="http://www.idpf.org/2007/opf">'' @
     ''<metadata><meta name="cover" content="cover-img"/></metadata>'' @
     ''<manifest>'' @
     ''<item id="cover-img" href="cover.jpg" media-type="image/jpeg"/>'' @
     ''<item id="rm-cover-page" href="intro.xhtml" media-type="application/xhtml+xml"/>'' @
     ''<item id="ch1" href="ch1.xhtml" media-type="application/xhtml+xml"/>'' @
     ''</manifest>'' @
     ''<spine><itemref idref="ch1"/></spine>'' @
     ''</package>''\<close>

definition demo_tostring :: "element \<Rightarrow> string" where
  "demo_tostring e =
     (if e = patch_opf collide_opf then ''<package patched=1/>''
      else if e = patch_opf (patch_opf collide_opf) then ''<package patched=2/>''
      else ''<package/>'')"

definition demo_parse :: "string \<Rightarrow> error + element" where
  "demo_parse s =
     (if s = collide_opf_text then Inr collide_opf
      else if s = ''<package patched=1/>'' then Inr (patch_opf collide_opf)
      else if s = ''<package patched=2/>'' then Inr (patch_opf (patch_opf collide_opf))
      else if s = ''<?xml version='' @ [CHR 0x22] @ ''1.0'' @ [CHR 0x22] @ '' encoding='' @ [CHR 0x22] @
                  ''gb2312'' @ [CHR 0x22] @ ''?><package/>''
      then Inl (ValueError ''multi-byte encodings are not supported'')
      else Inl ParseError)"

section \<open>The device, the libraries and the operating system\<close>

text \<open>
  How \<open>urlopen\<close> ends for \<open>POST /upload\<close>:
  \<^item> \<open>Success\<close>: a status from 200 to 299, with the JSON document of the body;
  \<^item> \<open>BadJson\<close>: such a status with a body that \<open>json.loads\<close> rejects;
  \<^item> \<open>HttpFailure\<close>: a status for which \<open>urllib\<close> raises \<open>HTTPError\<close>, with the status
    code and the response body decoded with \<open>errors="replace"\<close>;
  \<^item> \<open>ConnFailure\<close>: no answer at all (\<open>URLError\<close>, a timeout).

  Not every status outside 200 to 299 raises: \<open>urllib\<close> follows a \<open>POST\<close> that is
  answered with 301, 302 or 303 and a \<open>Location\<close> header by a \<open>GET\<close> to the new
  location, and the exchange ends with the answer to that. An exchange is therefore
  the list of the statuses that \<open>urllib\<close> followed, in their order, and how it ended.
\<close>

datatype response = Success string | BadJson | HttpFailure int string | ConnFailure string

type_synonym exchange = "int list \<times> response"

text \<open>How a run of \<open>ebook-convert\<close> ends: it exits with a return code, its captured
  standard output and the bytes it wrote to the output file; it runs past the deadline;
  or it cannot be started.\<close>

datatype proc_outcome = Exited int string string | TimedOut | SpawnFailed string

text \<open>
  Everything outside the repository that the upload path calls: the device
  (\<open>listing\<close> is the result of \<open>fetch_documents(ip, path_id)\<close>), the standard library
  (\<open>str.lower\<close>, \<open>mimetypes.guess_type\<close>, \<open>ElementTree\<close>, the bytes \<open>zipfile\<close> writes
  for a list of entries, \<open>uuid4().hex\<close> and the temporary file names, each for the
  k-th item of a batch), the converter, and the order in which the futures of the
  conversion pool complete.
\<close>

record world =
  listing :: "string \<Rightarrow> string \<Rightarrow> error + raw list"
  post_upload :: "string \<Rightarrow> string \<Rightarrow> exchange"
  str_lower :: "string \<Rightarrow> string"
  guess_type :: "string \<Rightarrow> string option"
  xml_fromstring :: "string \<Rightarrow> error + element"
  xml_tostring :: "element \<Rightarrow> string"
  zip_bytes :: "zentry list \<Rightarrow> string"
  uuid4_hex :: "nat \<Rightarrow> string"
  epub_temp :: "nat \<Rightarrow> string"
  pdf_temp :: "nat \<Rightarrow> string"
  ebook_convert_path :: string
  run_process :: "string list \<Rightarrow> proc_outcome"
  completion_order :: "nat \<Rightarrow> nat list"

definition file_bytes :: "world \<Rightarrow> filedata \<Rightarrow> string" where
  "file_bytes w f = (case f of Blob b \<Rightarrow> b | Archive es \<Rightarrow> zip_bytes w es)"

section \<open>Upload transport (rm\_web\_interface.py)\<close>

definition CRLF :: string where
  "CRLF = [CHR 0x0D, CHR 0x0A]"

definition MIME_TYPES :: "string \<rightharpoonup> string" where
  "MIME_TYPES = [''.epub'' \<mapsto> ''application/epub+zip'', ''.pdf'' \<mapsto> ''application/pdf'']"

text \<open>\<open>_build_multipart\<close>: the body and the \<open>Content-Type\<close> header. \<open>hex\<close> is
  \<open>uuid.uuid4().hex\<close>.\<close>

definition build_multipart ::
    "world \<Rightarrow> string \<Rightarrow> string \<Rightarrow> string \<Rightarrow> string option \<Rightarrow> string \<times> string" where
  \<open>build_multipart w hex fname file_data content_type =
     (let boundary = ''----remarkable-'' @ hex;
          ctype =
            (case content_type of
               Some c \<Rightarrow> c
             | None \<Rightarrow>
                 (let ext = str_lower w (snd (os_path_splitext fname))
                  in case MIME_TYPES ext of
                       Some m \<Rightarrow> m
                     | None \<Rightarrow>
                         (case guess_type w fname of
                            None \<Rightarrow> ''application/octet-stream''
                          | Some g \<Rightarrow> if g \<noteq> [] then g else ''application/octet-stream'')))
      in (''--'' @ boundary @ CRLF @
          ''Content-Disposition: form-data; name="file"; filename="'' @ fname @ ''"'' @ CRLF @
          ''Content-Type: '' @ ctype @ CRLF @
          CRLF @
          file_data @
          CRLF @
          ''--'' @ boundary @ ''--'' @ CRLF,
          ''multipart/form-data; boundary='' @ boundary))\<close>

text \<open>The message of the \<open>RuntimeError\<close> that \<open>upload_file\<close> raises on an \<open>HTTPError\<close>.\<close>

definition upload_failed_message :: "int \<Rightarrow> string \<Rightarrow> string \<Rightarrow> nat \<Rightarrow> string" where
  "upload_failed_message code error_body display_name body_len =
     ''Upload failed (HTTP '' @ str_int code @ ''): '' @
     (if error_body \<noteq> [] then error_body else ''no details'') @
     '' [file='' @ display_name @ '', size='' @ str_nat body_len @ '']''"

text \<open>The body of the outer \<open>try\<close> of \<open>upload_file\<close>: read the prepared file, build the
  request, send it. Only \<open>HTTPError\<close> is caught and turned into the \<open>RuntimeError\<close>.\<close>

definition send_upload ::
    "world \<Rightarrow> nat \<Rightarrow> filesystem \<Rightarrow> string \<Rightarrow> string \<Rightarrow> string \<Rightarrow> string
      \<Rightarrow> (error + string) \<times> event list" where
  "send_upload w k fs ip prepared_path folder_id display_name =
     (case fs prepared_path of
        None \<Rightarrow> (Inl (OSError prepared_path), [])
      | Some f \<Rightarrow>
          (let body = fst (build_multipart w (uuid4_hex w k) display_name (file_bytes w f) None);
               sent = POST display_name (length body) # map Redirect (fst (post_upload w ip body))
           in case snd (post_upload w ip body) of
                Success js \<Rightarrow> (Inr js, sent)
              | BadJson \<Rightarrow> (Inl (ValueError ''Expecting value''), sent)
              | ConnFailure m \<Rightarrow> (Inl (OSError m), sent)
              | HttpFailure code error_body \<Rightarrow>
                  (Inl (RuntimeError (upload_failed_message code error_body display_name (length body))),
                   sent @
                   [Log ''ERROR'' (''Upload HTTP '' @ str_int code @ '': '' @ error_body @ '' (file='' @
                       display_name @ '', folder='' @ folder_id @ '', size='' @ str_nat (length body) @ '')'')])))"

text \<open>
  \<open>upload_file\<close> for the k-th item of a batch: the result or the exception, the file
  system afterwards and the events. The \<open>finally\<close> clause deletes the repackaged file
  on every way out of the \<open>try\<close>.
\<close>

definition upload_file ::
    "world \<Rightarrow> nat \<Rightarrow> filesystem \<Rightarrow> string \<Rightarrow> string \<Rightarrow> string \<Rightarrow> string \<Rightarrow> bool \<Rightarrow> bool
      \<Rightarrow> (error + string) \<times> filesystem \<times> event list" where
  "upload_file w k fs ip local_path folder_id display_name inject_cover navigate =
     (let nav =
            (if navigate then
               (case listing w ip folder_id of
                  Inl e \<Rightarrow> [GET folder_id,
                             Log ''WARNING'' (''Pre-upload navigation failed for folder='' @ folder_id)]
                | Inr listing_result \<Rightarrow> [GET folder_id])
             else [])
      in case prepare_epub (str_lower w) (xml_fromstring w) (xml_tostring w) (epub_temp w k)
                fs local_path inject_cover of
           (Inl e, fs1) \<Rightarrow> (Inl e, fs1, nav)
         | (Inr (prepared_path, cleanup_path), fs1) \<Rightarrow>
             (case send_upload w k fs1 ip prepared_path folder_id display_name of
                (r, evs) \<Rightarrow>
                  (if truthy cleanup_path
                   then (r, fs1(the cleanup_path := None), nav @ evs @ [Unlink (the cleanup_path)])
                   else (r, fs1, nav @ evs))))"

text \<open>A device for which \<open>urlopen\<close> makes the given thing of every \<open>POST /upload\<close>, and
  the operating system and libraries around it.\<close>

definition answering :: "exchange \<Rightarrow> world" where
  "answering r =
     \<lparr>listing = (\<lambda>ip i. Inr []),
      post_upload = (\<lambda>ip body. r),
      str_lower = ascii_lower,
      guess_type = (\<lambda>f. None),
      xml_fromstring = demo_parse,
      xml_tostring = demo_tostring,
      zip_bytes = (\<lambda>es. concat (map data es)),
      uuid4_hex = (\<lambda>k. ''0123456789abcdef0123456789abcdef''),
      epub_temp = (\<lambda>k. ''/tmp/tmp'' @ str_nat k @ ''.epub''),
      pdf_temp = (\<lambda>k. ''/tmp/tmp'' @ str_nat k @ ''.pdf''),
      ebook_convert_path = ''ebook-convert'',
      run_process = (\<lambda>cmd. Exited 0 [] ''%PDF''),
      completion_order = (\<lambda>n. [0..<n])\<rparr>"

text \<open>A library file that is not an EPUB.\<close>

definition pdf_fs :: filesystem where
  "pdf_fs = [''/lib/b.pdf'' \<mapsto> Blob ''%PDF-1.7'']"

section \<open>Folder lookup (rm\_web\_interface.py)\<close>

text \<open>A Python dictionary whose order matters is a list of pairs with distinct keys:
  \<open>d[k] = v\<close> overwrites in place or appends, \<open>d.update(e)\<close> stores the pairs of
  \<open>e\<close> in their order.\<close>

fun dict_set :: "('k \<times> 'v) list \<Rightarrow> 'k \<Rightarrow> 'v \<Rightarrow> ('k \<times> 'v) list" where
  "dict_set [] k v = [(k, v)]"
| "dict_set ((k', v') # d) k v = (if k' = k then (k, v) # d else (k', v') # dict_set d k v)"

definition dict_update :: "('k \<times> 'v) list \<Rightarrow> ('k \<times> 'v) list \<Rightarrow> ('k \<times> 'v) list" where
  "dict_update d e = fold (\<lambda>(k, v) acc. dict_set acc k v) e d"

text \<open>\<open>FileTree.folder_id_map\<close>; the loop over the entries carries \<open>mapping\<close>.\<close>

fun folder_id_map :: "FileTree \<Rightarrow> string \<Rightarrow> (string \<times> string) list"
  and folder_id_map_loop ::
    "FileTreeNode list \<Rightarrow> string \<Rightarrow> (string \<times> string) list \<Rightarrow> (string \<times> string) list" where
  "folder_id_map (FileTree ns) pre = folder_id_map_loop ns pre []"
| "folder_id_map_loop [] pre mapping = mapping"
| "folder_id_map_loop (FileTreeNode e t # ns) pre mapping =
     (if is_folder e then
        folder_id_map_loop ns pre
          (dict_update (dict_set mapping (pre @ name e) (entry_id e))
             (folder_id_map t (pre @ name e @ ''/'')))
      else folder_id_map_loop ns pre mapping)"

definition fetch_documents :: "world \<Rightarrow> string \<Rightarrow> string \<Rightarrow> error + raw list" where
  "fetch_documents w ip path_id = listing w ip path_id"

text \<open>\<open>find_folder_id\<close>: the id (empty for the root) and the events of the lookup.\<close>

definition find_folder_id :: "world \<Rightarrow> string \<Rightarrow> string \<Rightarrow> string \<times> event list" where
  "find_folder_id w ip folder_name =
     (if folder_name = [] then ([], [])
      else
        (case build_file_tree (fetch_documents w ip) [] 0 3 False 0 of
           (Inl e, c, evs) \<Rightarrow>
             ([], evs @ [Log ''WARNING'' (''Failed to look up folder '' @ [CHR 0x27] @ folder_name @ [CHR 0x27])])
         | (Inr tree, c, evs) \<Rightarrow>
             (let folder_map = folder_id_map tree []
              in case map_of folder_map folder_name of
                   Some fid \<Rightarrow> (fid, evs)
                 | None \<Rightarrow>
                     (case List.find (\<lambda>(p, fid). str_lower w p = str_lower w folder_name) folder_map of
                        Some (p, fid) \<Rightarrow> (fid, evs)
                      | None \<Rightarrow>
                          ([], evs @ [Log ''WARNING'' (''Folder '' @ [CHR 0x27] @ folder_name @ [CHR 0x27] @
                                        '' not found on device, uploading to root'')])))))"

section \<open>Conversion and the transfer pipeline (\_\_init\_\_.py)\<close>

record PluginSettings =
  IP :: string
  model :: string
  preferred_format :: string
  target_folder :: string
  inject_cover :: bool
  pdf_margin :: int
  pdf_font_size :: int
  pdf_font :: string
  embed_all_fonts :: bool

text \<open>The page sizes are floats that the code only prints; they are kept as what
  \<open>f'{width_in}x{height_in}'\<close> prints for them.\<close>

definition DEVICE_PAGE_SIZE :: "string \<rightharpoonup> string \<times> string" where
  "DEVICE_PAGE_SIZE =
     [''rm2'' \<mapsto> (''6.2'', ''8.3''), ''paper-pro'' \<mapsto> (''7.1'', ''9.4''), ''pro-move'' \<mapsto> (''3.6'', ''6.4'')]"

definition DEVICE_PDF_SETTINGS :: "string \<rightharpoonup> int \<times> int" where
  "DEVICE_PDF_SETTINGS = [''rm2'' \<mapsto> (36, 18), ''paper-pro'' \<mapsto> (36, 20), ''pro-move'' \<mapsto> (18, 14)]"

text \<open>The command line of \<open>_convert_epub_to_pdf\<close>.\<close>

definition convert_cmd ::
    "string \<Rightarrow> string \<Rightarrow> string \<Rightarrow> string \<Rightarrow> int \<Rightarrow> int \<Rightarrow> string \<Rightarrow> bool \<Rightarrow> string list" where
  "convert_cmd exe epub_path out_path device margin_override font_size_override font_override embed_fonts =
     (let (width_in, height_in) =
            (case DEVICE_PAGE_SIZE device of Some s \<Rightarrow> s | None \<Rightarrow> (''7.1'', ''9.4''));
          (default_margin, default_font_size) =
            (case DEVICE_PDF_SETTINGS device of Some s \<Rightarrow> s | None \<Rightarrow> (36, 20));
          margin = str_int (if margin_override \<noteq> 0 then margin_override else default_margin);
          font_size = str_int (if font_size_override \<noteq> 0 then font_size_override else default_font_size)
      in [exe, epub_path, out_path,
          ''--output-profile'', ''generic_eink_hd'',
          ''--custom-size'', width_in @ ''x'' @ height_in,
          ''--pdf-page-margin-top'', margin,
          ''--pdf-page-margin-bottom'', margin,
          ''--pdf-page-margin-left'', margin,
          ''--pdf-page-margin-right'', margin,
          ''--pdf-default-font-size'', font_size]
         @ (if embed_fonts then [''--embed-all-fonts''] else [])
         @ (if font_override \<noteq> [] then [''--pdf-serif-family'', font_override] else []))"

text \<open>
  \<open>_convert_epub_to_pdf\<close> for the k-th item of a batch (called without a progress
  callback): the path of the PDF or the exception, the file system afterwards and the
  events. \<open>mkstemp\<close> creates the output file; every exception deletes it again.
\<close>

definition convert_epub_to_pdf ::
    "world \<Rightarrow> nat \<Rightarrow> filesystem \<Rightarrow> string \<Rightarrow> string \<Rightarrow> int \<Rightarrow> int \<Rightarrow> string \<Rightarrow> bool
      \<Rightarrow> (error + string) \<times> filesystem \<times> event list" where
  "convert_epub_to_pdf w k fs epub_path device margin_override font_size_override font_override embed_fonts =
     (let out_path = pdf_temp w k;
          cmd = convert_cmd (ebook_convert_path w) epub_path out_path device margin_override
                  font_size_override font_override embed_fonts
      in case run_process w cmd of
           SpawnFailed m \<Rightarrow> (Inl (OSError m), fs(out_path := None), [Unlink out_path])
         | TimedOut \<Rightarrow>
             (Inl (TimeoutError ''ebook-convert timed out after 300s''), fs(out_path := None),
              [Run cmd, Unlink out_path])
         | Exited rc out pdf \<Rightarrow>
             if rc \<noteq> 0 then
               (Inl (RuntimeError (''Conversion failed (rc='' @ str_int rc @ ''): '' @ take 500 out)),
                fs(out_path := None),
                [Run cmd,
                 Log ''ERROR'' (''ebook-convert failed (rc='' @ str_int rc @ ''): '' @ take 500 out),
                 Unlink out_path])
             else (Inr out_path, fs(out_path \<mapsto> Blob pdf), [Run cmd]))"

text \<open>One element of \<open>upload_items\<close>, a dictionary in the source.\<close>

record 'm item =
  it_index :: nat
  it_local_path :: string
  it_upload_name :: string
  it_visible_name :: string
  it_meta :: "'m option"
  it_needs_convert :: bool
  it_converted_path :: "string option"
  it_cleanup_path :: "string option"

text \<open>The loop over \<open>enumerate(zip(files_original, names, metadata))\<close> that fills
  \<open>upload_items\<close>; \<open>zip\<close> stops with the shortest list.\<close>

fun build_items ::
    "world \<Rightarrow> PluginSettings \<Rightarrow> nat \<Rightarrow> string list \<Rightarrow> string list \<Rightarrow> 'm option list \<Rightarrow> 'm item list" where
  "build_items w cfg i (local_path # files) (visible_name # names) (meta # metas) =
     \<lparr>it_index = i,
      it_local_path = local_path,
      it_upload_name = os_path_basename visible_name,
      it_visible_name = visible_name,
      it_meta = meta,
      it_needs_convert = (preferred_format cfg = ''pdf''
                          \<and> str_lower w (snd (os_path_splitext local_path)) = ''.epub''),
      it_converted_path = None,
      it_cleanup_path = None\<rparr> # build_items w cfg (Suc i) files names metas"
| "build_items w cfg i files names metas = []"

text \<open>\<open>_do_convert\<close>, the work of one future.\<close>

definition do_convert ::
    "world \<Rightarrow> PluginSettings \<Rightarrow> filesystem \<Rightarrow> 'm item \<Rightarrow> (error + string) \<times> filesystem \<times> event list" where
  "do_convert w cfg fs it =
     convert_epub_to_pdf w (it_index it) fs (it_local_path it) (model cfg) (pdf_margin cfg)
       (pdf_font_size cfg) (pdf_font cfg) (embed_all_fonts cfg)"

text \<open>Whether the conversion of an item raises; the file system plays no part in it.\<close>

definition conversion_fails :: "world \<Rightarrow> PluginSettings \<Rightarrow> 'm item \<Rightarrow> bool" where
  "conversion_fails w cfg it = isl (fst (do_convert w cfg Map.empty it))"

text \<open>
  The conversion pool. Every submitted future runs to its end, also after the main
  thread has met a failure (leaving the \<open>with\<close> block waits for the pool), so the
  model first runs the conversions, in the order in which they complete, and then
  handles the results in that order, as the loop over \<open>as_completed\<close> does.
\<close>

fun run_futures ::
    "world \<Rightarrow> PluginSettings \<Rightarrow> filesystem \<Rightarrow> 'm item list
      \<Rightarrow> ('m item \<times> (error + string)) list \<times> filesystem \<times> event list" where
  "run_futures w cfg fs [] = ([], fs, [])"
| "run_futures w cfg fs (it # its) =
     (case do_convert w cfg fs it of
        (r, fs1, evs) \<Rightarrow>
          (case run_futures w cfg fs1 its of
             (rs, fs2, evs') \<Rightarrow> ((it, r) # rs, fs2, evs @ evs')))"

text \<open>The body of the loop over the completed futures: a result updates the item in
  \<open>upload_items\<close> (the dictionaries are shared), a failure is logged and raised again.\<close>

fun handle_results ::
    "'m item list \<Rightarrow> ('m item \<times> (error + string)) list \<Rightarrow> (error + 'm item list) \<times> event list" where
  "handle_results upload_items [] = (Inr upload_items, [])"
| "handle_results upload_items ((it, Inr pdf_path) # rs) =
     handle_results
       (upload_items[it_index it :=
          it\<lparr>it_converted_path := Some pdf_path,
             it_cleanup_path := Some pdf_path,
             it_local_path := pdf_path,
             it_upload_name := fst (os_path_splitext (it_upload_name it)) @ ''.pdf''\<rparr>])
       rs"
| "handle_results upload_items ((it, Inl e) # rs) =
     (Inl e, [Log ''ERROR'' (''Conversion failed for '' @ it_upload_name it)])"

text \<open>The futures complete in the order the scheduler decides: \<open>completion_order\<close>
  lists positions in \<open>items_to_convert\<close>, and \<open>as_completed\<close> yields the items in that
  order.\<close>

definition as_completed :: "world \<Rightarrow> 'm item list \<Rightarrow> 'm item list" where
  "as_completed w items_to_convert =
     map (\<lambda>j. items_to_convert ! j)
       (filter (\<lambda>j. j < length items_to_convert) (completion_order w (length items_to_convert)))"

text \<open>Phase 1 of \<open>upload_books\<close>.\<close>

definition convert_phase ::
    "world \<Rightarrow> PluginSettings \<Rightarrow> filesystem \<Rightarrow> 'm item list
      \<Rightarrow> (error + 'm item list) \<times> filesystem \<times> event list" where
  "convert_phase w cfg fs upload_items =
     (let items_to_convert = filter it_needs_convert upload_items
      in if items_to_convert = [] then (Inr upload_items, fs, [])
         else
           (case run_futures w cfg fs (as_completed w items_to_convert) of
              (results, fs1, evs) \<Rightarrow>
                (case handle_results upload_items results of
                   (r, evs') \<Rightarrow> (r, fs1, evs @ evs'))))"

text \<open>The upload loop of phase 2: every item is uploaded with \<open>navigate=False\<close>, and its
  converted file is deleted whatever the upload did.\<close>

fun upload_loop ::
    "world \<Rightarrow> PluginSettings \<Rightarrow> filesystem \<Rightarrow> string \<Rightarrow> 'm item list \<Rightarrow> string list
      \<Rightarrow> (error + string list) \<times> filesystem \<times> event list" where
  "upload_loop w cfg fs folder_id [] locations = (Inr locations, fs, [])"
| "upload_loop w cfg fs folder_id (it # its) locations =
     (case upload_file w (it_index it) fs (IP cfg) (it_local_path it) folder_id (it_upload_name it)
             (inject_cover cfg) False of
        (r, fs1, evs) \<Rightarrow>
          (let (fs2, cleanup) =
                 (if truthy (it_cleanup_path it)
                  then (fs1(the (it_cleanup_path it) := None), [Unlink (the (it_cleanup_path it))])
                  else (fs1, []))
           in case r of
                Inl e \<Rightarrow> (Inl e, fs2, evs @ cleanup)
              | Inr reply \<Rightarrow>
                  (case upload_loop w cfg fs2 folder_id its (locations @ [it_visible_name it]) of
                     (r', fs3, evs') \<Rightarrow> (r', fs3, evs @ cleanup @ evs'))))"

text \<open>Phase 2 of \<open>upload_books\<close>: one navigation when a folder was resolved, then the
  loop.\<close>

definition upload_phase ::
    "world \<Rightarrow> PluginSettings \<Rightarrow> filesystem \<Rightarrow> string \<Rightarrow> 'm item list
      \<Rightarrow> (error + string list) \<times> filesystem \<times> event list" where
  "upload_phase w cfg fs folder_id upload_items =
     (let nav =
            (if folder_id \<noteq> [] then
               (case fetch_documents w (IP cfg) folder_id of
                  Inl e \<Rightarrow> [GET folder_id, Log ''WARNING'' ''Pre-upload folder navigation failed'']
                | Inr listing_result \<Rightarrow> [GET folder_id])
             else [])
      in case upload_loop w cfg fs folder_id upload_items [] of
           (r, fs1, evs) \<Rightarrow> (r, fs1, nav @ evs))"

text \<open>The resolution of the target folder at the start of \<open>upload_books\<close>.\<close>

definition resolve_folder :: "world \<Rightarrow> PluginSettings \<Rightarrow> string \<times> event list" where
  "resolve_folder w cfg =
     (if target_folder cfg \<noteq> [] then
        (case find_folder_id w (IP cfg) (target_folder cfg) of
           (folder_id, evs) \<Rightarrow>
             if folder_id \<noteq> [] then (folder_id, evs)
             else ([], evs @ [Log ''WARNING'' (''Folder '' @ [CHR 0x27] @ target_folder cfg @ [CHR 0x27] @
                                '' not found on device '' @ [CHR 0xE2, CHR 0x80, CHR 0x94] @
                                '' uploading to root. Create the folder on your reMarkable first, then retry.'')]))
      else ([], []))"

text \<open>\<open>metadata = metadata or [None] * len(files_original)\<close>.\<close>

definition fill_metadata :: "string list \<Rightarrow> 'm option list option \<Rightarrow> 'm option list" where
  "fill_metadata files_original metadata =
     (case metadata of
        None \<Rightarrow> replicate (length files_original) None
      | Some ms \<Rightarrow> if ms = [] then replicate (length files_original) None else ms)"

text \<open>
  \<open>RemarkableUsbDevice.upload_books\<close>: the returned locations and metadata (the third
  component of the result is always \<open>None\<close>) or the exception, the file system
  afterwards and the events.
\<close>

definition upload_books ::
    "world \<Rightarrow> PluginSettings \<Rightarrow> filesystem \<Rightarrow> string list \<Rightarrow> string list \<Rightarrow> 'm option list option
      \<Rightarrow> (error + string list \<times> 'm option list) \<times> filesystem \<times> event list" where
  "upload_books w cfg fs files_original names metadata =
     (if files_original = [] then
        (Inr ([], case metadata of None \<Rightarrow> [] | Some ms \<Rightarrow> ms), fs, [])
      else
        (let metas = fill_metadata files_original metadata
         in case resolve_folder w cfg of
              (folder_id, evs0) \<Rightarrow>
                (case convert_phase w cfg fs (build_items w cfg 0 files_original names metas) of
                   (Inl e, fs1, evs1) \<Rightarrow> (Inl e, fs1, evs0 @ evs1)
                 | (Inr upload_items, fs1, evs1) \<Rightarrow>
                     (case upload_phase w cfg fs1 folder_id upload_items of
                        (Inl e, fs2, evs2) \<Rightarrow> (Inl e, fs2, evs0 @ evs1 @ evs2)
                      | (Inr locations, fs2, evs2) \<Rightarrow>
                          (Inr (locations, metas), fs2, evs0 @ evs1 @ evs2)))))"

text \<open>The requests of the plugin among the events: the listing requests
  \<open>GET /documents/{id}\<close> and the uploads.\<close>

definition is_GET :: "event \<Rightarrow> bool" where
  "is_GET ev = (case ev of GET i \<Rightarrow> True | _ \<Rightarrow> False)"

definition is_POST :: "event \<Rightarrow> bool" where
  "is_POST ev = (case ev of POST f n \<Rightarrow> True | _ \<Rightarrow> False)"

definition is_request :: "event \<Rightarrow> bool" where
  "is_request ev = (is_GET ev \<or> is_POST ev)"

text \<open>The file names of the uploads among the events, in their order.\<close>

definition post_names :: "event list \<Rightarrow> string list" where
  "post_names evs = concat (map (\<lambda>ev. case ev of POST f n \<Rightarrow> [f] | _ \<Rightarrow> []) evs)"

section \<open>Delete (\_\_init\_\_.py)\<close>

text \<open>
  What the plugin keeps between calls: the detected device (address and session id,
  the module global \<open>_device\<close>), the cached path of the converter, the format list
  and the booklist that Calibre hands to the bookkeeping methods.
\<close>

record plugin_state =
  detected :: "(string \<times> nat) option"
  convert_exe_cache :: "string option"
  FORMATS :: "string list"
  booklist :: "book list"

text \<open>\<open>sep.join(xs)\<close>.\<close>

fun str_join :: "string \<Rightarrow> string list \<Rightarrow> string" where
  "str_join sep [] = []"
| "str_join sep [x] = x"
| "str_join sep (x # y # ys) = x @ sep @ str_join sep (y # ys)"

text \<open>\<open>RemarkableUsbDevice.delete_books\<close>: what it raises, the plugin state afterwards
  and the events.\<close>

definition delete_books ::
    "plugin_state \<Rightarrow> string list \<Rightarrow> (error + unit) \<times> plugin_state \<times> event list" where
  "delete_books st paths =
     (let book_names = str_join ''\<newline>'' (map (\<lambda>p. ''  - '' @ os_path_basename p) paths)
      in (Inl (UserFeedback ''Cannot delete via USB web interface''
                (''The reMarkable USB web interface does not support deleting books.\<newline>\<newline>'' @
                 ''Please delete these directly on your reMarkable:\<newline>'' @ book_names)
                ''WARNING''),
          st, []))"

section \<open>A device, a library and a batch for the examples\<close>

definition demo_cfg :: "string \<Rightarrow> string \<Rightarrow> PluginSettings" where
  "demo_cfg fmt folder =
     \<lparr>IP = ''10.11.99.1'', model = ''paper-pro'', preferred_format = fmt, target_folder = folder,
      inject_cover = True, pdf_margin = 0, pdf_font_size = 0, pdf_font = [], embed_all_fonts = True\<rparr>"

text \<open>The root of the device holds one folder, \<open>Books\<close>, with the id \<open>f1\<close>; the folder
  is empty.\<close>

definition shelf_listing :: "string \<Rightarrow> string \<Rightarrow> error + raw list" where
  "shelf_listing ip i =
     (if i = [] then
        Inr [[''ID'' \<mapsto> ''f1'', ''Type'' \<mapsto> ''CollectionType'', ''VissibleName'' \<mapsto> ''Books'']]
      else Inr [])"

text \<open>The device accepts every upload; the converter fails on \<open>/lib/two.epub\<close> with the
  return code 1 and no output; the futures complete in reverse order of submission.\<close>

definition demo_world :: world where
  "demo_world =
     \<lparr>listing = shelf_listing,
      post_upload = (\<lambda>ip body. ([], Success ''{}'')),
      str_lower = ascii_lower,
      guess_type = (\<lambda>f. None),
      xml_fromstring = demo_parse,
      xml_tostring = demo_tostring,
      zip_bytes = (\<lambda>es. concat (map data es)),
      uuid4_hex = (\<lambda>k. ''0123456789abcdef0123456789abcdef''),
      epub_temp = (\<lambda>k. ''/tmp/tmp'' @ str_nat k @ ''.epub''),
      pdf_temp = (\<lambda>k. ''/tmp/tmp'' @ str_nat k @ ''.pdf''),
      ebook_convert_path = ''ebook-convert'',
      run_process = (\<lambda>cmd. if cmd ! 1 = ''/lib/two.epub'' then Exited 1 [] []
                             else Exited 0 [] ''%PDF-1.7''),
      completion_order = (\<lambda>n. rev [0..<n])\<rparr>"

text \<open>The same, with a converter that fails on \<open>/lib/two.epub\<close> with the return code 1
  and on \<open>/lib/three.epub\<close> with the return code 2.\<close>

definition demo_world2 :: world where
  "demo_world2 =
     demo_world\<lparr>run_process :=
       (\<lambda>cmd. if cmd ! 1 = ''/lib/two.epub'' then Exited 1 [] []
              else if cmd ! 1 = ''/lib/three.epub'' then Exited 2 [] []
              else Exited 0 [] ''%PDF-1.7'')\<rparr>"

definition demo_fs :: filesystem where
  "demo_fs =
     [''/lib/one.epub'' \<mapsto> Archive [], ''/lib/two.epub'' \<mapsto> Archive [],
      ''/lib/three.epub'' \<mapsto> Archive [], ''/lib/a.pdf'' \<mapsto> Blob ''%PDF-1.7'',
      ''/lib/b.pdf'' \<mapsto> Blob ''%PDF-1.7'']"

definition three_epubs :: "string list" where
  "three_epubs = [''/lib/one.epub'', ''/lib/two.epub'', ''/lib/three.epub'']"

definition three_names :: "string list" where
  "three_names = [''one.epub'', ''two.epub'', ''three.epub'']"



definition item_three :: "unit item" where
  "item_three =
     \<lparr>it_index = 2, it_local_path = ''/lib/three.epub'', it_upload_name = ''three.epub'',
      it_visible_name = ''three.epub'', it_meta = None, it_needs_convert = True,
      it_converted_path = None, it_cleanup_path = None\<rparr>"

definition item_two :: "unit item" where
  "item_two =
     \<lparr>it_index = 1, it_local_path = ''/lib/two.epub'', it_upload_name = ''two.epub'',
      it_visible_name = ''two.epub'', it_meta = None, it_needs_convert = True,
      it_converted_path = None, it_cleanup_path = None\<rparr>"

definition no_metadata :: "unit option list option" where
  "no_metadata = None"

section \<open>Book equality\<close>

text \<open>
  Claim C1. Equality of two Books is decided by three tiers: it is true exactly when
  both device ids (\<open>rm_uuid\<close>) are non-empty and equal, or both library ids
  (\<open>uuid\<close>) are non-empty and equal, or both paths are non-empty, neither is the
  root \<open>/\<close>, and they are equal; in every other case it is false.
\<close>

theorem Book_eq_three_tiers:
  "Book_eq a b =
     ((rm_uuid a \<noteq> [] \<and> rm_uuid b \<noteq> [] \<and> rm_uuid a = rm_uuid b)
      \<or> (uuid a \<noteq> [] \<and> uuid b \<noteq> [] \<and> uuid a = uuid b)
      \<or> (path a \<noteq> [] \<and> path b \<noteq> [] \<and> path a \<noteq> ''/'' \<and> path b \<noteq> ''/'' \<and> path a = path b))"
  unfolding Book_eq_def by simp

text \<open>
  Claim C5, as stated, asks for reflexivity on every Book. A Book without any usable
  identifier (empty device id, empty library id, root path) is not equal to itself:
  each tier needs a non-empty value on both sides.
\<close>

theorem Book_eq_not_reflexive_anon: "\<not> Book_eq book_anon book_anon"
  by (simp add: Book_eq_def book_anon_def Book_def)

text \<open>
  Claim C5, amended. A Book is equal to itself exactly when it carries a usable
  identifier (a non-empty device id, a non-empty library id, or a non-empty path other
  than the root); equality is symmetric on all Books; and it is not transitive:
  \<open>A = B\<close> and \<open>B = C\<close> hold while \<open>A = C\<close> fails for the Books \<open>A\<close>, \<open>B\<close>, \<open>C\<close>
  above.
\<close>

theorem Book_eq_refl_sym_not_trans:
  "(Book_eq b b = (rm_uuid b \<noteq> [] \<or> uuid b \<noteq> [] \<or> (path b \<noteq> [] \<and> path b \<noteq> ''/'')))
   \<and> (Book_eq a c = Book_eq c a)
   \<and> Book_eq book_A book_B \<and> Book_eq book_B book_C \<and> \<not> Book_eq book_A book_C"
proof -
  have r: "Book_eq b b = (rm_uuid b \<noteq> [] \<or> uuid b \<noteq> [] \<or> (path b \<noteq> [] \<and> path b \<noteq> ''/''))"
    unfolding Book_eq_def by simp
  have s: "Book_eq a c = Book_eq c a"
    unfolding Book_eq_def by auto
  have t: "Book_eq book_A book_B \<and> Book_eq book_B book_C \<and> \<not> Book_eq book_A book_C"
    by (simp add: Book_eq_def book_A_def book_B_def book_C_def Book_def)
  from r s t show ?thesis by blast
qed

theorem Book_eq_refl_sym_not_trans_witness:
  "Book_eq book_B book_B \<and> rm_uuid book_B = ''x'' \<and> Book_eq book_A book_C = Book_eq book_C book_A
   \<and> Book_eq book_A book_B \<and> Book_eq book_B book_C \<and> \<not> Book_eq book_A book_C"
proof -
  have h: "rm_uuid book_B = ''x''"
    by (simp add: book_B_def Book_def)
  note T = Book_eq_refl_sym_not_trans [of book_B book_A book_C]
  from T h have "Book_eq book_B book_B"
    by simp
  with T h show ?thesis
    by blast
qed

section \<open>The crawler\<close>

lemma from_json_all_ids:
  "from_json_all raws = Inr es \<Longrightarrow> map (\<lambda>e. Some (entry_id e)) es = map (\<lambda>r. r ''ID'') raws"
  by (induction raws arbitrary: es) (auto simp: from_json_def split: sum.splits option.splits)

lemma build_nodes_entries:
  "build_nodes fetch es d m cb c = (Inr ns, c', evs) \<Longrightarrow> map entry ns = es"
  by (induction es arbitrary: ns c c' evs) (auto split: if_splits sum.splits prod.splits)

lemma distinct_map_sort_key: "distinct (map f (sort_key k xs)) = distinct (map f xs)"
  by (simp add: distinct_map)

lemma distinct_Some_ids:
  "distinct (map (\<lambda>e. Some (entry_id e)) es) = distinct (map entry_id es)"
  by (simp add: distinct_map inj_on_def)

lemma build_file_tree_cutoff:
  "build_file_tree fetch root (m + int k) m cb c =
     (Inr (FileTree []), c,
      [Log ''WARNING'' (''Max folder depth ('' @ str_int m @ '') reached, stopping recursion'')])"
  by (simp add: build_file_tree.simps)

lemma build_depth_bound:
  "\<forall>t c' evs. build_file_tree fetch root d m cb c = (Inr t, c', evs) \<longrightarrow> tree_depth t \<le> nat (m - d)"
  "\<forall>ns c' evs. build_nodes fetch es d m cb c = (Inr ns, c', evs) \<longrightarrow> d < m
      \<longrightarrow> nodes_depth ns \<le> nat (m - d)"
proof (induction fetch root d m cb c and fetch es d m cb c rule: build_file_tree_build_nodes.induct)
  case (1 fetch root_id depth max_depth cb counter)
  then show ?case
    by (subst build_file_tree.simps) (auto split: sum.splits prod.splits simp: Let_def)
next
  case (2 fetch depth max_depth cb counter)
  then show ?case by simp
next
  case (3 fetch e es depth max_depth cb counter)
  then show ?case
    by (auto split: sum.splits prod.splits if_splits)
qed

lemma cyclic_crawl:
  "build_file_tree cyclic_listing [] 0 2 True 0 =
     (Inr (FileTree [FileTreeNode loop_entry (FileTree [FileTreeNode loop_entry (FileTree [])])]), 2,
      [GET [], ScanProgress ''Scanning reMarkable... 1 items found'',
       GET ''a'', ScanProgress ''Scanning reMarkable... 2 items found'',
       Log ''WARNING'' ''Max folder depth (2) reached, stopping recursion''])"
  by (simp add: build_file_tree.simps cyclic_listing_def from_json_def dict_get_def
      COLLECTION_def is_folder_def str_int_def str_nat.simps loop_entry_def)

text \<open>
  Claim C9. \<open>build_file_tree\<close> is a total function for every depth bound and every
  listing function (its recursion is accepted with the measure built from
  \<open>max_depth - depth\<close>, whatever the listings say, so also for a cyclic device). A
  call at a depth that has reached the bound \<open>m\<close> returns the empty tree, raises
  nothing and issues no request (its only event is the warning), and every tree that
  a call at depth \<open>d\<close> returns has at most \<open>m - d\<close> levels: the crawl of a cyclic
  device returns a partial tree.
\<close>

theorem build_file_tree_depth_bounded:
  "build_file_tree fetch root (m + int k) m cb c =
     (Inr (FileTree []), c,
      [Log ''WARNING'' (''Max folder depth ('' @ str_int m @ '') reached, stopping recursion'')])
   \<and> (\<forall>t c' evs. build_file_tree fetch r d m b n = (Inr t, c', evs)
         \<longrightarrow> tree_depth t \<le> nat (m - d))"
  using build_file_tree_cutoff build_depth_bound(1) by blast

theorem build_file_tree_depth_bounded_witness:
  "fst (build_file_tree cyclic_listing ''a'' (2 + int 1) 2 True 5) = Inr (FileTree [])
   \<and> fst (build_file_tree cyclic_listing [] 0 2 True 0) =
       Inr (FileTree [FileTreeNode loop_entry (FileTree [FileTreeNode loop_entry (FileTree [])])])
   \<and> tree_depth (FileTree [FileTreeNode loop_entry (FileTree [FileTreeNode loop_entry (FileTree [])])]) \<le> 2"
proof -
  note T = build_file_tree_depth_bounded
    [where fetch = cyclic_listing and root = "''a''" and m = 2 and k = 1 and cb = True and c = 5
       and r = "[]" and d = 0 and b = True and n = 0]
  from T have a: "fst (build_file_tree cyclic_listing ''a'' (2 + int 1) 2 True 5) = Inr (FileTree [])"
    by simp
  from T cyclic_crawl
  have "tree_depth (FileTree [FileTreeNode loop_entry (FileTree [FileTreeNode loop_entry (FileTree [])])])
          \<le> nat (2 - 0)"
    by blast
  with a cyclic_crawl show ?thesis by simp
qed

lemma build_unique_levels:
  "\<forall>t c' evs. (\<forall>i raws. fetch i = Inr raws \<longrightarrow> distinct (map (\<lambda>r. r ''ID'') raws)) \<longrightarrow>
      build_file_tree fetch root d m cb c = (Inr t, c', evs) \<longrightarrow> unique_levels t"
  "\<forall>ns c' evs. (\<forall>i raws. fetch i = Inr raws \<longrightarrow> distinct (map (\<lambda>r. r ''ID'') raws)) \<longrightarrow>
      build_nodes fetch es d m cb c = (Inr ns, c', evs) \<longrightarrow> unique_levels_nodes ns"
proof (induction fetch root d m cb c and fetch es d m cb c rule: build_file_tree_build_nodes.induct)
  case (1 fetch root_id depth max_depth cb counter)
  show ?case
  proof (intro allI impI)
    fix t c' evs
    assume ok: "\<forall>i raws. fetch i = Inr raws \<longrightarrow> distinct (map (\<lambda>r. r ''ID'') raws)"
      and run: "build_file_tree fetch root_id depth max_depth cb counter = (Inr t, c', evs)"
    show "unique_levels t"
    proof (cases "max_depth \<le> depth")
      case True
      with run show ?thesis by (auto simp: build_file_tree.simps)
    next
      case False
      from run False obtain raws es ns c2 evs2 where
        f: "fetch root_id = Inr raws" and j: "from_json_all raws = Inr es"
        and b: "build_nodes fetch (sort_key parent_id es) depth max_depth cb (counter + length es)
                  = (Inr ns, c2, evs2)"
        and t: "t = FileTree ns"
        by (subst (asm) build_file_tree.simps) (auto split: sum.splits prod.splits simp: Let_def)
      from "1.IH"[OF False f j refl refl refl] ok b have u: "unique_levels_nodes ns"
        by simp
      from ok f have "distinct (map (\<lambda>r. r ''ID'') raws)" by blast
      with from_json_all_ids[OF j] have "distinct (map entry_id es)"
        by (simp add: distinct_Some_ids[symmetric])
      then have "distinct (map entry_id (sort_key parent_id es))"
        by (simp add: distinct_map_sort_key)
      moreover from build_nodes_entries[OF b]
      have "map (\<lambda>n. entry_id (entry n)) ns = map entry_id (sort_key parent_id es)"
        by (metis (no_types, lifting) map_map comp_apply map_eq_conv)
      ultimately show ?thesis using u t by simp
    qed
  qed
next
  case (2 fetch depth max_depth cb counter)
  then show ?case by simp
next
  case (3 fetch e es depth max_depth cb counter)
  then show ?case
    by (auto split: sum.splits prod.splits if_splits)
qed

lemma dup_crawl:
  "build_file_tree dup_listing [] 0 20 False 0 =
     (Inr (FileTree [FileTreeNode (dup_entry ''one'') (FileTree []),
                     FileTreeNode (dup_entry ''two'') (FileTree [])]), 2, [GET []])"
  by (simp add: build_file_tree.simps dup_listing_def from_json_def dict_get_def
      COLLECTION_def DOCUMENT_def is_folder_def dup_entry_def)

text \<open>
  Claim C10, as stated, asks for unique ids at every level whatever the listings say.
  The crawler keeps every entry of a listing response: when the root listing names the
  id \<open>a\<close> twice, the tree it returns has two nodes with the id \<open>a\<close> at its top level.
\<close>

theorem build_file_tree_duplicate_ids:
  "fst (build_file_tree dup_listing [] 0 20 False 0) =
     Inr (FileTree [FileTreeNode (dup_entry ''one'') (FileTree []),
                    FileTreeNode (dup_entry ''two'') (FileTree [])])
   \<and> \<not> unique_levels (FileTree [FileTreeNode (dup_entry ''one'') (FileTree []),
                                FileTreeNode (dup_entry ''two'') (FileTree [])])"
  by (simp add: dup_crawl dup_entry_def)

text \<open>
  Claim C10, amended. When no listing response of the device repeats an id, every
  tree that \<open>build_file_tree\<close> returns has unique entry ids within each of its levels.
\<close>

theorem build_file_tree_unique_levels:
  assumes "\<forall>i raws. fetch i = Inr raws \<longrightarrow> distinct (map (\<lambda>r. r ''ID'') raws)"
    and "build_file_tree fetch root d m cb c = (Inr t, c', evs)"
  shows "unique_levels t"
  using assms build_unique_levels(1) by blast

lemma library_crawl:
  "build_file_tree library_listing [] 0 20 False 0 =
     (Inr library_tree, 5, [GET [], GET ''f1''])"
  by (simp add: build_file_tree.simps library_listing_def from_json_def dict_get_def
      COLLECTION_def DOCUMENT_def is_folder_def library_tree_def doc_entry_def)

theorem build_file_tree_unique_levels_witness:
  "fst (build_file_tree library_listing [] 0 20 False 0) = Inr library_tree
   \<and> map (\<lambda>n. entry_id (entry n)) (entries library_tree) = [''d1'', ''f1'', ''d2'']
   \<and> unique_levels library_tree"
proof -
  have ok: "\<forall>i raws. library_listing i = Inr raws \<longrightarrow> distinct (map (\<lambda>r. r ''ID'') raws)"
    by (auto simp: library_listing_def split: if_splits)
  have "unique_levels library_tree"
    using ok by (rule build_file_tree_unique_levels [OF _ library_crawl])
  moreover have "map (\<lambda>n. entry_id (entry n)) (entries library_tree) = [''d1'', ''f1'', ''d2'']"
    by (simp add: library_tree_def doc_entry_def)
  ultimately show ?thesis
    using library_crawl by simp
qed

section \<open>EPUB preparation\<close>

lemmas xml_defs = cover_image_id_def cover_meta_def iter_tag_def find_child_def findall_def
  cover_image_href_def get_attr_def get_attr_default_def truthy_def opf_tag_def OPF_NS_def
  update_child_def append_child_def insert_first_def

lemma collide_locate: "locate_opf parse (collide_src b) = Inr (Some ''content.opf'')"
  by (simp add: locate_opf_def collide_src_def deflated_def zread_def suffix_def)

lemma collide_first_pass:
  assumes "parse b = Inr collide_opf"
  shows "ensure_cover_page parse tostring (collide_src b) ''content.opf'' b =
           Inr (Some (tostring (patch_opf collide_opf)),
                [(''rm_cover.xhtml'', COVER_PAGE_HTML ''cover.jpg'')])"
  using assms
  by (simp add: ensure_cover_page_def collide_opf_def xml_defs first_page_has_cover_def
      posixpath_dirname_def collide_src_def deflated_def zread_def sublist_code Let_def)

lemma collide_second_pass:
  assumes "parse (tostring (patch_opf collide_opf)) = Inr (patch_opf collide_opf)"
  shows "ensure_cover_page parse tostring (collide_out tostring) ''content.opf''
             (tostring (patch_opf collide_opf)) =
           Inr (Some (tostring (patch_opf (patch_opf collide_opf))),
                [(''rm_cover.xhtml'', COVER_PAGE_HTML ''cover.jpg'')])"
  using assms
  by (simp add: ensure_cover_page_def collide_opf_def patch_opf_def xml_defs first_page_has_cover_def
      posixpath_dirname_def collide_out_def deflated_def zread_def sublist_code Let_def
      mimetype_entry_def)

lemma collide_repackaged:
  assumes "patched \<noteq> []"
  shows "repackaged (collide_src b) (Some ''content.opf'') (Some patched)
           [(''rm_cover.xhtml'', COVER_PAGE_HTML ''cover.jpg'')] =
         [mimetype_entry,
          deflated ''content.opf'' patched,
          deflated ''intro.xhtml'' ''<html><body>Introduction</body></html>'',
          deflated ''ch1.xhtml'' ''<html><body>Chapter 1</body></html>'',
          deflated ''cover.jpg'' ''JFIF'',
          deflated ''rm_cover.xhtml'' (COVER_PAGE_HTML ''cover.jpg'')]"
  using assms
  by (simp add: repackaged_def collide_src_def deflated_def zread_def truthy_def)

lemma collide_manifest_ids:
  "map (\<lambda>i. get_attr i ''id'')
     (findall (opf_tag ''item'')
        (the (find_child (opf_tag ''manifest'') (patch_opf (patch_opf collide_opf))))) =
   [Some ''cover-img'', Some ''rm-cover-page'', Some ''ch1'', Some ''rm-cover-page'',
    Some ''rm-cover-page'']"
  by (simp add: collide_opf_def patch_opf_def xml_defs)

lemma collide_spine_refs:
  "map (\<lambda>i. get_attr i ''idref'')
     (children (the (find_child (opf_tag ''spine'') (patch_opf (patch_opf collide_opf))))) =
   [Some ''rm-cover-page'', Some ''rm-cover-page'', Some ''ch1'']"
  by (simp add: collide_opf_def patch_opf_def xml_defs)

lemma ascii_lower_b: "ascii_lower ''/books/b.epub'' = ''/books/b.epub''"
  by code_simp

lemma collide_prepare:
  assumes "parse b = Inr collide_opf" and "tostring (patch_opf collide_opf) \<noteq> []"
  shows "prepare_epub ascii_lower parse tostring ''/tmp/t1.epub''
           [''/books/b.epub'' \<mapsto> Archive (collide_src b)] ''/books/b.epub'' True =
         (Inr (''/tmp/t1.epub'', Some ''/tmp/t1.epub''),
          [''/books/b.epub'' \<mapsto> Archive (collide_src b),
           ''/tmp/t1.epub'' \<mapsto> Archive (collide_out tostring)])"
proof -
  have inj: "inject_step parse tostring (collide_src b) (Some ''content.opf'') True =
      Inr (Some (tostring (patch_opf collide_opf)),
           [(''rm_cover.xhtml'', COVER_PAGE_HTML ''cover.jpg'')])"
    using collide_first_pass [where parse = parse and b = b and tostring = tostring, OF assms(1)]
    by (simp add: inject_step_def truthy_def collide_src_def deflated_def zread_def)
  show ?thesis
    using inj collide_repackaged [where patched = "tostring (patch_opf collide_opf)" and b = b, OF assms(2)]
    by (simp add: prepare_epub_def ascii_lower_b suffix_def collide_locate collide_out_def)
qed

text \<open>
  An exception of the parser other than \<open>ParseError\<close> leaves \<open>_prepare_epub\<close>: for a
  package document that declares the encoding \<open>gb2312\<close>, the \<open>ValueError\<close> of
  \<open>ET.fromstring\<close> passes both \<open>except\<close> clauses, and no file is written.
\<close>

lemma prepare_epub_value_error:
  \<open>prepare_epub ascii_lower demo_parse demo_tostring ''/tmp/t1.epub''
     [''/books/b.epub'' \<mapsto> Archive (collide_src (''<?xml version="1.0" encoding="gb2312"?><package/>''))]
     ''/books/b.epub'' True =
   (Inl (ValueError ''multi-byte encodings are not supported''),
    [''/books/b.epub'' \<mapsto> Archive (collide_src (''<?xml version="1.0" encoding="gb2312"?><package/>''))])\<close>
proof -
  have p: \<open>demo_parse (''<?xml version="1.0" encoding="gb2312"?><package/>'') =
             Inl (ValueError ''multi-byte encodings are not supported'')\<close>
    by (simp add: demo_parse_def collide_opf_text_def)
  have z: "zread (collide_src b) ''content.opf'' = Some b" for b
    by (simp add: collide_src_def zread_def deflated_def)
  show ?thesis
    by (simp add: prepare_epub_def ascii_lower_b suffix_def collide_locate inject_step_def
        truthy_def z ensure_cover_page_def p key_or_parse_error_def)
qed

lemma demo_parse_text: "demo_parse collide_opf_text = Inr collide_opf"
  by (simp add: demo_parse_def)

lemma demo_tostring_once: "demo_tostring (patch_opf collide_opf) = ''<package patched=1/>''"
  by (simp add: demo_tostring_def)

lemma demo_tostring_twice:
  "demo_tostring (patch_opf (patch_opf collide_opf)) = ''<package patched=2/>''"
  by (simp add: demo_tostring_def collide_opf_def patch_opf_def xml_defs)

lemma demo_parse_once: "demo_parse ''<package patched=1/>'' = Inr (patch_opf collide_opf)"
  by (simp add: demo_parse_def collide_opf_text_def)

text \<open>
  Claim C2, as stated, has all other entries of the source copied. With cover
  injection, the entry of the package document is not a copy: for the archive
  \<open>collide_src\<close>, whose \<open>content.opf\<close> declares a cover that the first page does not
  show, the written archive holds the patched document under \<open>content.opf\<close>, not the
  bytes of the source, and the generated page \<open>rm_cover.xhtml\<close> after the entries of
  the source.
\<close>

theorem prepare_epub_patches_package_document:
  "prepare_epub ascii_lower demo_parse demo_tostring ''/tmp/t1.epub''
     [''/books/b.epub'' \<mapsto> Archive (collide_src collide_opf_text)] ''/books/b.epub'' True =
   (Inr (''/tmp/t1.epub'', Some ''/tmp/t1.epub''),
    [''/books/b.epub'' \<mapsto> Archive (collide_src collide_opf_text),
     ''/tmp/t1.epub'' \<mapsto> Archive (collide_out demo_tostring)])
   \<and> zread (collide_src collide_opf_text) ''content.opf'' = Some collide_opf_text
   \<and> zread (collide_out demo_tostring) ''content.opf'' = Some ''<package patched=1/>''
   \<and> collide_opf_text \<noteq> ''<package patched=1/>''
   \<and> map filename (collide_out demo_tostring) =
       [''mimetype'', ''content.opf'', ''intro.xhtml'', ''ch1.xhtml'', ''cover.jpg'', ''rm_cover.xhtml'']"
proof -
  have ne: "demo_tostring (patch_opf collide_opf) \<noteq> []"
    by (simp add: demo_tostring_once)
  have a: "zread (collide_src collide_opf_text) ''content.opf'' = Some collide_opf_text"
    by (simp add: collide_src_def zread_def deflated_def)
  have b: "zread (collide_out demo_tostring) ''content.opf'' = Some ''<package patched=1/>''"
    by (simp add: collide_out_def zread_def deflated_def mimetype_entry_def demo_tostring_once)
  have c: "collide_opf_text \<noteq> ''<package patched=1/>''"
    by (simp add: collide_opf_text_def)
  have d: "map filename (collide_out demo_tostring) =
       [''mimetype'', ''content.opf'', ''intro.xhtml'', ''ch1.xhtml'', ''cover.jpg'', ''rm_cover.xhtml'']"
    by (simp add: collide_out_def deflated_def mimetype_entry_def)
  from collide_prepare
    [where parse = demo_parse and tostring = demo_tostring and b = collide_opf_text,
     OF demo_parse_text ne] a b c d
  show ?thesis by simp
qed

text \<open>
  Claim C2, amended. For every \<open>.epub\<close> path that holds a readable archive and on
  which \<open>_prepare_epub\<close> does not raise, it returns the temporary file, and the archive
  it wrote there is exactly this: first the entry \<open>mimetype\<close>, stored uncompressed,
  with an empty extra field and the bytes \<open>application/epub+zip\<close>; then one deflated
  entry for every entry of the source other than \<open>mimetype\<close>, in the source's order
  and under its name, with the bytes the source holds for that name, except that an
  entry named as the package document carries the patched document when the cover
  injection produced one; then the files the injection generated. Without cover
  injection there is no patch and no generated file, so every entry is a copy.
\<close>

theorem prepare_epub_marker_first:
  assumes "suffix ''.epub'' (lower p)" and "fs p = Some (Archive src)"
    and "prepare_epub lower parse tostring tmp fs p inject = (Inr r, fs')"
  shows "\<exists>opf_path patched_opf new_files.
           locate_opf parse src = Inr opf_path
         \<and> inject_step parse tostring src opf_path inject = Inr (patched_opf, new_files)
         \<and> (\<not> inject \<longrightarrow> patched_opf = None \<and> new_files = [])
         \<and> r = (tmp, Some tmp)
         \<and> fs' = fs(tmp \<mapsto> Archive
              (\<lparr>filename = ''mimetype'', data = ''application/epub+zip'',
                 compress_type = ZIP_STORED, extra = []\<rparr>
               # map (\<lambda>item.
                     \<lparr>filename = filename item,
                      data = (if truthy patched_opf \<and> Some (filename item) = opf_path
                              then the patched_opf else the (zread src (filename item))),
                      compress_type = ZIP_DEFLATED, extra = []\<rparr>)
                   (filter (\<lambda>item. filename item \<noteq> ''mimetype'') src)
               @ map (\<lambda>(n, d). \<lparr>filename = n, data = d, compress_type = ZIP_DEFLATED, extra = []\<rparr>)
                   new_files))"
proof -
  from assms obtain opf_path where l: "locate_opf parse src = Inr opf_path"
    by (auto simp: prepare_epub_def split: sum.splits)
  with assms obtain po nf where
    i: "inject_step parse tostring src opf_path inject = Inr (po, nf)"
    by (auto simp: prepare_epub_def split: sum.splits)
  have off: "\<not> inject \<longrightarrow> po = None \<and> nf = []"
    using i by (auto simp: inject_step_def)
  from assms l i have r: "r = (tmp, Some tmp)"
    and f: "fs' = fs(tmp \<mapsto> Archive (repackaged src opf_path po nf))"
    by (auto simp: prepare_epub_def)
  from f have f': "fs' = fs(tmp \<mapsto> Archive
              (\<lparr>filename = ''mimetype'', data = ''application/epub+zip'',
                 compress_type = ZIP_STORED, extra = []\<rparr>
               # map (\<lambda>item.
                     \<lparr>filename = filename item,
                      data = (if truthy po \<and> Some (filename item) = opf_path
                              then the po else the (zread src (filename item))),
                      compress_type = ZIP_DEFLATED, extra = []\<rparr>)
                   (filter (\<lambda>item. filename item \<noteq> ''mimetype'') src)
               @ map (\<lambda>(n, d). \<lparr>filename = n, data = d, compress_type = ZIP_DEFLATED, extra = []\<rparr>) nf))"
    by (simp add: repackaged_def mimetype_entry_def deflated_def)
  from l i off r f' show ?thesis
    by blast
qed

lemma ascii_lower_demo: "ascii_lower ''/books/Demo.EPUB'' = ''/books/demo.epub''"
  by code_simp

lemma demo_prepare_plain:
  "prepare_epub ascii_lower demo_parse demo_tostring ''/tmp/t1.epub''
     [''/books/Demo.EPUB'' \<mapsto> Archive (collide_src collide_opf_text)] ''/books/Demo.EPUB'' False =
   (Inr (''/tmp/t1.epub'', Some ''/tmp/t1.epub''),
    [''/books/Demo.EPUB'' \<mapsto> Archive (collide_src collide_opf_text),
     ''/tmp/t1.epub'' \<mapsto>
       Archive (repackaged (collide_src collide_opf_text) (Some ''content.opf'') None [])])"
  by (simp add: prepare_epub_def ascii_lower_demo suffix_def collide_locate inject_step_def)

theorem prepare_epub_marker_first_witness:
  "snd (prepare_epub ascii_lower demo_parse demo_tostring ''/tmp/t1.epub''
          [''/books/Demo.EPUB'' \<mapsto> Archive (collide_src collide_opf_text)] ''/books/Demo.EPUB'' False)
     ''/tmp/t1.epub'' =
   Some (Archive
     [\<lparr>filename = ''mimetype'', data = ''application/epub+zip'', compress_type = ZIP_STORED, extra = []\<rparr>,
      \<lparr>filename = ''content.opf'', data = collide_opf_text, compress_type = ZIP_DEFLATED, extra = []\<rparr>,
      \<lparr>filename = ''intro.xhtml'', data = ''<html><body>Introduction</body></html>'',
         compress_type = ZIP_DEFLATED, extra = []\<rparr>,
      \<lparr>filename = ''ch1.xhtml'', data = ''<html><body>Chapter 1</body></html>'',
         compress_type = ZIP_DEFLATED, extra = []\<rparr>,
      \<lparr>filename = ''cover.jpg'', data = ''JFIF'', compress_type = ZIP_DEFLATED, extra = []\<rparr>])"
proof -
  let ?fs = "[''/books/Demo.EPUB'' \<mapsto> Archive (collide_src collide_opf_text)]"
  let ?L = "?fs(''/tmp/t1.epub'' \<mapsto>
              Archive (repackaged (collide_src collide_opf_text) (Some ''content.opf'') None []))"
  let ?R = "\<lambda>opf_path patched_opf new_files. ?fs(''/tmp/t1.epub'' \<mapsto> Archive
              (\<lparr>filename = ''mimetype'', data = ''application/epub+zip'',
                 compress_type = ZIP_STORED, extra = []\<rparr>
               # map (\<lambda>item.
                     \<lparr>filename = filename item,
                      data = (if truthy patched_opf \<and> Some (filename item) = opf_path
                              then the patched_opf
                              else the (zread (collide_src collide_opf_text) (filename item))),
                      compress_type = ZIP_DEFLATED, extra = []\<rparr>)
                   (filter (\<lambda>item. filename item \<noteq> ''mimetype'') (collide_src collide_opf_text))
               @ map (\<lambda>(n, d). \<lparr>filename = n, data = d, compress_type = ZIP_DEFLATED, extra = []\<rparr>)
                   new_files))"
  have h1: "suffix ''.epub'' (ascii_lower ''/books/Demo.EPUB'')"
    by (simp add: ascii_lower_demo suffix_def)
  have h2: "?fs ''/books/Demo.EPUB'' = Some (Archive (collide_src collide_opf_text))"
    by simp
  note T = prepare_epub_marker_first
    [where lower = ascii_lower and p = "''/books/Demo.EPUB''" and fs = ?fs
       and src = "collide_src collide_opf_text" and parse = demo_parse and tostring = demo_tostring
       and tmp = "''/tmp/t1.epub''" and inject = False, OF h1 h2 demo_prepare_plain]
  then obtain opf_path patched_opf new_files where
    po: "patched_opf = None" and nf: "new_files = []"
    and f: "?L = ?R opf_path patched_opf new_files"
    by blast
  have e1: "snd (prepare_epub ascii_lower demo_parse demo_tostring ''/tmp/t1.epub'' ?fs
                   ''/books/Demo.EPUB'' False) ''/tmp/t1.epub'' = ?L ''/tmp/t1.epub''"
    by (simp only: demo_prepare_plain snd_conv)
  have e2: "?L ''/tmp/t1.epub'' = ?R opf_path patched_opf new_files ''/tmp/t1.epub''"
    by (rule fun_cong [OF f])
  have e3: "?R opf_path patched_opf new_files ''/tmp/t1.epub'' = Some (Archive
     [\<lparr>filename = ''mimetype'', data = ''application/epub+zip'', compress_type = ZIP_STORED, extra = []\<rparr>,
      \<lparr>filename = ''content.opf'', data = collide_opf_text, compress_type = ZIP_DEFLATED, extra = []\<rparr>,
      \<lparr>filename = ''intro.xhtml'', data = ''<html><body>Introduction</body></html>'',
         compress_type = ZIP_DEFLATED, extra = []\<rparr>,
      \<lparr>filename = ''ch1.xhtml'', data = ''<html><body>Chapter 1</body></html>'',
         compress_type = ZIP_DEFLATED, extra = []\<rparr>,
      \<lparr>filename = ''cover.jpg'', data = ''JFIF'', compress_type = ZIP_DEFLATED, extra = []\<rparr>])"
    by (simp add: po nf truthy_def collide_src_def deflated_def zread_def)
  show ?thesis
    by (rule trans [OF e1 trans [OF e2 e3]])
qed

text \<open>
  Claim C4 fails on the archive \<open>collide_src\<close>, whose manifest already has an item with
  the id \<open>rm-cover-page\<close>. For every parser and serialiser that read the package
  document of the archive and read back the patched one: the first pass injects the
  cover page and writes \<open>collide_out\<close>; on that result the second pass of
  \<open>_ensure_cover_page\<close> looks the first spine reference \<open>rm-cover-page\<close> up in the
  manifest, finds the older item \<open>intro.xhtml\<close> first, misses the cover there and
  injects again. The package document then has the added manifest item and the added
  spine reference twice.
\<close>

theorem cover_injection_repeats_on_id_collision:
  assumes "parse b = Inr collide_opf"
    and "parse (tostring (patch_opf collide_opf)) = Inr (patch_opf collide_opf)"
    and "tostring (patch_opf collide_opf) \<noteq> []"
  shows "prepare_epub ascii_lower parse tostring ''/tmp/t1.epub''
           [''/books/b.epub'' \<mapsto> Archive (collide_src b)] ''/books/b.epub'' True =
         (Inr (''/tmp/t1.epub'', Some ''/tmp/t1.epub''),
          [''/books/b.epub'' \<mapsto> Archive (collide_src b),
           ''/tmp/t1.epub'' \<mapsto> Archive (collide_out tostring)])
       \<and> ensure_cover_page parse tostring (collide_out tostring) ''content.opf''
             (the (zread (collide_out tostring) ''content.opf'')) =
           Inr (Some (tostring (patch_opf (patch_opf collide_opf))),
                [(''rm_cover.xhtml'', COVER_PAGE_HTML ''cover.jpg'')])
       \<and> map (\<lambda>i. get_attr i ''id'')
            (findall (opf_tag ''item'')
               (the (find_child (opf_tag ''manifest'') (patch_opf (patch_opf collide_opf))))) =
          [Some ''cover-img'', Some ''rm-cover-page'', Some ''ch1'', Some ''rm-cover-page'',
           Some ''rm-cover-page'']
       \<and> map (\<lambda>i. get_attr i ''idref'')
            (children (the (find_child (opf_tag ''spine'') (patch_opf (patch_opf collide_opf))))) =
          [Some ''rm-cover-page'', Some ''rm-cover-page'', Some ''ch1'']"
proof -
  have first: "prepare_epub ascii_lower parse tostring ''/tmp/t1.epub''
           [''/books/b.epub'' \<mapsto> Archive (collide_src b)] ''/books/b.epub'' True =
         (Inr (''/tmp/t1.epub'', Some ''/tmp/t1.epub''),
          [''/books/b.epub'' \<mapsto> Archive (collide_src b),
           ''/tmp/t1.epub'' \<mapsto> Archive (collide_out tostring)])"
    using collide_prepare [where parse = parse and tostring = tostring and b = b, OF assms(1) assms(3)] .
  have rd: "the (zread (collide_out tostring) ''content.opf'') = tostring (patch_opf collide_opf)"
    by (simp add: collide_out_def zread_def deflated_def mimetype_entry_def)
  from first collide_second_pass [where parse = parse and tostring = tostring, OF assms(2)]
    rd collide_manifest_ids collide_spine_refs
  show ?thesis by simp
qed

theorem cover_injection_repeats_on_id_collision_witness:
  "ensure_cover_page demo_parse demo_tostring (collide_out demo_tostring) ''content.opf''
       (the (zread (collide_out demo_tostring) ''content.opf'')) =
     Inr (Some ''<package patched=2/>'', [(''rm_cover.xhtml'', COVER_PAGE_HTML ''cover.jpg'')])"
proof -
  have h2: "demo_parse (demo_tostring (patch_opf collide_opf)) = Inr (patch_opf collide_opf)"
    by (simp add: demo_tostring_once demo_parse_once)
  have h3: "demo_tostring (patch_opf collide_opf) \<noteq> []"
    by (simp add: demo_tostring_once)
  from cover_injection_repeats_on_id_collision
    [where parse = demo_parse and tostring = demo_tostring and b = collide_opf_text,
     OF demo_parse_text h2 h3]
    demo_tostring_twice
  show ?thesis by simp
qed

section \<open>Upload transport\<close>



lemma ascii_lower_pdf: "ascii_lower ''/lib/b.pdf'' = ''/lib/b.pdf''" "ascii_lower ''.pdf'' = ''.pdf''"
  by code_simp+



text \<open>
  A \<open>POST\<close> that the device answers with 302 and a \<open>Location\<close> header is followed by
  \<open>urllib\<close>; when the second exchange succeeds, \<open>upload_file\<close> returns its document and
  raises nothing, although the \<open>POST\<close> itself had a status outside 200 to 299.
\<close>

lemma upload_file_redirect_followed:
  "fst (upload_file (answering ([302], Success ''{}'')) 0 pdf_fs ''10.11.99.1'' ''/lib/b.pdf'' []
          ''b.pdf'' True False) = Inr ''{}''
   \<and> snd (snd (upload_file (answering ([302], Success ''{}'')) 0 pdf_fs ''10.11.99.1'' ''/lib/b.pdf'' []
          ''b.pdf'' True False)) = [POST ''b.pdf'' 210, Redirect 302]"
  by (simp add: upload_file_def send_upload_def answering_def prepare_epub_def pdf_fs_def
      ascii_lower_pdf suffix_def build_multipart_def os_path_splitext_def os_path_basename_def
      MIME_TYPES_def CRLF_def file_bytes_def truthy_def)




section \<open>The transfer pipeline\<close>

lemma is_GET_simps [simp]:
  "is_GET (GET i)" "\<not> is_GET (POST f n)" "\<not> is_GET (Log l m)" "\<not> is_GET (ScanProgress m)"
  "\<not> is_GET (Run c)" "\<not> is_GET (Unlink p)" "\<not> is_GET (Redirect s)"
  by (simp_all add: is_GET_def)

lemma is_POST_simps [simp]:
  "\<not> is_POST (GET i)" "is_POST (POST f n)" "\<not> is_POST (Log l m)" "\<not> is_POST (ScanProgress m)"
  "\<not> is_POST (Run c)" "\<not> is_POST (Unlink p)" "\<not> is_POST (Redirect s)"
  by (simp_all add: is_POST_def)

lemma filter_Redirect [simp]:
  "filter is_GET (map Redirect cs) = []" "filter is_POST (map Redirect cs) = []"
  by (induction cs) simp_all

lemma post_names_simps [simp]:
  "post_names [] = []"
  "post_names (POST f n # evs) = f # post_names evs"
  "post_names (GET i # evs) = post_names evs"
  "post_names (Log l m # evs) = post_names evs"
  "post_names (ScanProgress m # evs) = post_names evs"
  "post_names (Run c # evs) = post_names evs"
  "post_names (Unlink p # evs) = post_names evs"
  "post_names (Redirect s # evs) = post_names evs"
  "post_names (xs @ ys) = post_names xs @ post_names ys"
  by (simp_all add: post_names_def)

lemma post_names_Redirect [simp]: "post_names (map Redirect cs) = []"
  by (induction cs) simp_all

lemma do_convert_quiet: "do_convert w cfg fs it = (r, fs', evs) \<Longrightarrow> filter is_request evs = []"
  by (auto simp: do_convert_def convert_epub_to_pdf_def Let_def is_request_def
      split: proc_outcome.splits if_splits)

lemma do_convert_result: "fst (do_convert w cfg fs it) = fst (do_convert w cfg fs' it)"
  by (auto simp: do_convert_def convert_epub_to_pdf_def Let_def split: proc_outcome.splits)

lemma conversion_fails_any_fs: "isl (fst (do_convert w cfg fs it)) = conversion_fails w cfg it"
  using do_convert_result [of w cfg fs it Map.empty] by (simp add: conversion_fails_def)

lemma run_futures_quiet:
  "run_futures w cfg fs its = (rs, fs', evs) \<Longrightarrow> filter is_request evs = []"
proof (induction its arbitrary: fs rs fs' evs)
  case Nil
  then show ?case by simp
next
  case (Cons it its)
  then show ?case
    by (auto split: prod.splits dest: do_convert_quiet)
qed

lemma run_futures_results:
  "run_futures w cfg fs its = (rs, fs', evs) \<Longrightarrow> rs = map (\<lambda>it. (it, fst (do_convert w cfg fs0 it))) its"
proof (induction its arbitrary: fs rs fs' evs)
  case Nil
  then show ?case by simp
next
  case (Cons it its)
  then show ?case
    using do_convert_result [of w cfg fs it fs0]
    by (auto split: prod.splits)
qed

lemma handle_results_quiet:
  "handle_results items rs = (r, evs) \<Longrightarrow> filter is_request evs = []"
proof (induction items rs arbitrary: r evs rule: handle_results.induct)
  case (1 upload_items)
  then show ?case by simp
next
  case (2 upload_items it pdf_path rs)
  then show ?case by simp
next
  case (3 upload_items it e rs)
  then show ?case by (auto simp: is_request_def)
qed

lemma handle_results_first_failure:
  "List.find (\<lambda>p. isl (snd p)) rs = Some (it, r) \<Longrightarrow>
   \<exists>e. r = Inl e
      \<and> handle_results items rs = (Inl e, [Log ''ERROR'' (''Conversion failed for '' @ it_upload_name it)])"
proof (induction items rs rule: handle_results.induct)
  case (1 upload_items)
  then show ?case by simp
next
  case (2 upload_items it' pdf_path rs)
  then show ?case by simp
next
  case (3 upload_items it' e rs)
  then show ?case by auto
qed

lemma find_map_conv: "List.find P (map f xs) = map_option f (List.find (\<lambda>x. P (f x)) xs)"
  by (induction xs) simp_all

lemma convert_phase_quiet:
  "convert_phase w cfg fs items = (r, fs', evs) \<Longrightarrow> filter is_request evs = []"
  by (auto simp: convert_phase_def Let_def split: if_splits prod.splits
      dest: run_futures_quiet handle_results_quiet)






lemma crawl_no_POST:
  "\<forall>r c' evs. build_file_tree fetch root d m cb c = (r, c', evs) \<longrightarrow> filter is_POST evs = []"
  "\<forall>r c' evs. build_nodes fetch es d m cb c = (r, c', evs) \<longrightarrow> filter is_POST evs = []"
proof (induction fetch root d m cb c and fetch es d m cb c rule: build_file_tree_build_nodes.induct)
  case (1 fetch root_id depth max_depth cb counter)
  then show ?case
    by (subst build_file_tree.simps) (auto split: sum.splits prod.splits simp: Let_def)
next
  case (2 fetch depth max_depth cb counter)
  then show ?case by simp
next
  case (3 fetch e es depth max_depth cb counter)
  then show ?case
    by (auto split: sum.splits prod.splits if_splits)
qed

lemma resolve_folder_no_POST: "filter is_POST (snd (resolve_folder w cfg)) = []"
proof -
  have "filter is_POST (snd (find_folder_id w ip n)) = []" for ip n
    using crawl_no_POST(1) [of "fetch_documents w ip" "[]" 0 3 False 0]
    by (auto simp: find_folder_id_def Let_def split: prod.splits sum.splits option.splits)
  then show ?thesis
    by (auto simp: resolve_folder_def split: prod.splits) (metis snd_conv)+
qed

lemma request_POST: "filter is_request evs = [] \<Longrightarrow> filter is_POST evs = []"
  by (induction evs) (auto simp: is_request_def split: if_splits)







text \<open>
  Claim C3, as stated, has the surfaced failure name the failing item. In a batch of
  three EPUBs whose second conversion exits with the return code 1 and prints nothing,
  \<open>upload_books\<close> raises the converter's \<open>RuntimeError\<close> as it is: its message holds
  the return code and the captured output, and neither the upload name \<open>two.epub\<close> nor
  the path \<open>/lib/two.epub\<close> of the failing item.
\<close>

theorem upload_books_failure_does_not_name_item:
  "fst (upload_books demo_world (demo_cfg ''pdf'' []) demo_fs three_epubs three_names no_metadata)
     = Inl (RuntimeError ''Conversion failed (rc=1): '')
   \<and> \<not> sublist ''two.epub'' ''Conversion failed (rc=1): ''
   \<and> \<not> sublist ''/lib/two.epub'' ''Conversion failed (rc=1): ''"
  by code_simp

text \<open>
  Claim C3, amended. When every conversion that was submitted to the pool completes,
  in whatever order, and the conversion of some queued item fails, \<open>upload_books\<close>
  raises, unchanged, the exception of the first conversion in completion order that
  failed; the upload phase is not started (after the folder lookup there is no request
  at all, and no \<open>POST /upload\<close> anywhere, also not for the items whose conversion
  succeeded); and an \<open>ERROR\<close> log record names the upload name of that item.
\<close>

theorem upload_books_conversion_failure:
  assumes "files_original \<noteq> []"
    and "bad \<in> set (filter it_needs_convert
                      (build_items w cfg 0 files_original names (fill_metadata files_original metadata)))"
    and "conversion_fails w cfg bad"
    and "set (completion_order w
               (length (filter it_needs_convert
                          (build_items w cfg 0 files_original names (fill_metadata files_original metadata)))))
         = {..<length (filter it_needs_convert
                          (build_items w cfg 0 files_original names (fill_metadata files_original metadata)))}"
  shows "\<exists>it e evs1.
           List.find (conversion_fails w cfg)
             (as_completed w (filter it_needs_convert
                (build_items w cfg 0 files_original names (fill_metadata files_original metadata)))) = Some it
         \<and> fst (do_convert w cfg fs it) = Inl e
         \<and> fst (upload_books w cfg fs files_original names metadata) = Inl e
         \<and> snd (snd (upload_books w cfg fs files_original names metadata)) = snd (resolve_folder w cfg) @ evs1
         \<and> filter is_request evs1 = []
         \<and> filter is_POST (snd (snd (upload_books w cfg fs files_original names metadata))) = []
         \<and> Log ''ERROR'' (''Conversion failed for '' @ it_upload_name it) \<in> set evs1"
proof -
  let ?items = "build_items w cfg 0 files_original names (fill_metadata files_original metadata)"
  let ?its = "filter it_needs_convert ?items"
  let ?completed = "as_completed w ?its"
  from assms(2) have ne: "?its \<noteq> []"
    by (metis empty_iff empty_set)
  from assms(2) obtain j where j: "j < length ?its" "?its ! j = bad"
    by (metis in_set_conv_nth)
  with assms(4) have "j \<in> set (filter (\<lambda>j. j < length ?its) (completion_order w (length ?its)))"
    by auto
  with j have bad_in: "bad \<in> set ?completed"
    unfolding as_completed_def by (metis (no_types, lifting) image_eqI set_map)
  with assms(3) obtain it where fnd: "List.find (conversion_fails w cfg) ?completed = Some it"
    by (cases "List.find (conversion_fails w cfg) ?completed") (auto simp: find_None_iff)
  obtain rs fsr evr where rf: "run_futures w cfg fs ?completed = (rs, fsr, evr)"
    by (metis prod_cases3)
  have rs: "rs = map (\<lambda>it. (it, fst (do_convert w cfg fs it))) ?completed"
    by (rule run_futures_results [OF rf])
  have "List.find (\<lambda>p. isl (snd p)) rs = Some (it, fst (do_convert w cfg fs it))"
    unfolding rs find_map_conv using fnd by (simp add: conversion_fails_any_fs)
  then obtain e where it_res: "fst (do_convert w cfg fs it) = Inl e"
    and hr: "handle_results ?items rs = (Inl e, [Log ''ERROR'' (''Conversion failed for '' @ it_upload_name it)])"
    using handle_results_first_failure by blast
  have cp: "convert_phase w cfg fs ?items =
      (Inl e, fsr, evr @ [Log ''ERROR'' (''Conversion failed for '' @ it_upload_name it)])"
    using ne rf hr by (simp add: convert_phase_def Let_def)
  let ?evs1 = "evr @ [Log ''ERROR'' (''Conversion failed for '' @ it_upload_name it)]"
  have res: "fst (upload_books w cfg fs files_original names metadata) = Inl e"
    using assms(1) cp by (simp add: upload_books_def Let_def split: prod.splits)
  have evs: "snd (snd (upload_books w cfg fs files_original names metadata)) = snd (resolve_folder w cfg) @ ?evs1"
    using assms(1) cp by (simp add: upload_books_def Let_def split: prod.splits)
  have quiet: "filter is_request ?evs1 = []"
    using convert_phase_quiet [OF cp] .
  have noposts: "filter is_POST (snd (snd (upload_books w cfg fs files_original names metadata))) = []"
    unfolding evs using resolve_folder_no_POST request_POST [OF quiet] by simp
  from fnd it_res res evs quiet noposts show ?thesis
    by (intro exI [of _ it] exI [of _ e] exI [of _ ?evs1]) simp
qed

lemma demo_item_two:
  "item_two \<in> set (filter it_needs_convert
       (build_items demo_world2 (demo_cfg ''pdf'' []) 0 three_epubs three_names
             (fill_metadata three_epubs no_metadata)))"
  by code_simp

lemma demo_three_queued:
  "length (filter it_needs_convert
       (build_items demo_world2 (demo_cfg ''pdf'' []) 0 three_epubs three_names
             (fill_metadata three_epubs no_metadata))) = 3"
  by code_simp

lemma demo_two_fails: "conversion_fails demo_world2 (demo_cfg ''pdf'' []) item_two"
  by code_simp

lemma demo_first_failure:
  "List.find (conversion_fails demo_world2 (demo_cfg ''pdf'' []))
     (as_completed demo_world2 (filter it_needs_convert
        (build_items demo_world2 (demo_cfg ''pdf'' []) 0 three_epubs three_names
             (fill_metadata three_epubs no_metadata)))) = Some item_three"
  by code_simp

lemma demo_three_fails:
  "fst (do_convert demo_world2 (demo_cfg ''pdf'' []) demo_fs item_three)
     = Inl (RuntimeError ''Conversion failed (rc=2): '')"
  by code_simp

theorem upload_books_conversion_failure_witness:
  "fst (upload_books demo_world2 (demo_cfg ''pdf'' []) demo_fs three_epubs three_names no_metadata)
     = Inl (RuntimeError ''Conversion failed (rc=2): '')
   \<and> filter is_POST (snd (snd (upload_books demo_world2 (demo_cfg ''pdf'' []) demo_fs three_epubs three_names no_metadata))) = []
   \<and> Log ''ERROR'' ''Conversion failed for three.epub''
       \<in> set (snd (snd (upload_books demo_world2 (demo_cfg ''pdf'' []) demo_fs three_epubs three_names no_metadata)))"
proof -
  have h1: "three_epubs \<noteq> []"
    by (simp add: three_epubs_def)
  have h4: "set (completion_order demo_world2
               (length (filter it_needs_convert
                  (build_items demo_world2 (demo_cfg ''pdf'' []) 0 three_epubs three_names
             (fill_metadata three_epubs no_metadata)))))
         = {..<length (filter it_needs_convert
                  (build_items demo_world2 (demo_cfg ''pdf'' []) 0 three_epubs three_names
             (fill_metadata three_epubs no_metadata)))}"
    unfolding demo_three_queued by (simp add: demo_world2_def demo_world_def lessThan_atLeast0)
  from upload_books_conversion_failure [OF h1 demo_item_two demo_two_fails h4, where fs = demo_fs]
  obtain it :: "unit item" and e evs1 where
    f: "List.find (conversion_fails demo_world2 (demo_cfg ''pdf'' []))
          (as_completed demo_world2 (filter it_needs_convert
             (build_items demo_world2 (demo_cfg ''pdf'' []) 0 three_epubs three_names
             (fill_metadata three_epubs no_metadata)))) = Some it"
    and c: "fst (do_convert demo_world2 (demo_cfg ''pdf'' []) demo_fs it) = Inl e"
    and r: "fst (upload_books demo_world2 (demo_cfg ''pdf'' []) demo_fs three_epubs three_names no_metadata) = Inl e"
    and ev: "snd (snd (upload_books demo_world2 (demo_cfg ''pdf'' []) demo_fs three_epubs three_names no_metadata))
           = snd (resolve_folder demo_world2 (demo_cfg ''pdf'' [])) @ evs1"
    and np: "filter is_POST (snd (snd (upload_books demo_world2 (demo_cfg ''pdf'' []) demo_fs three_epubs three_names no_metadata))) = []"
    and lg: "Log ''ERROR'' (''Conversion failed for '' @ it_upload_name it) \<in> set evs1"
    by blast
  from f demo_first_failure have it: "it = item_three"
    by simp
  from c demo_three_fails have e: "e = RuntimeError ''Conversion failed (rc=2): ''"
    unfolding it by simp
  have n: "''Conversion failed for '' @ it_upload_name item_three = ''Conversion failed for three.epub''"
    by (simp add: item_three_def)
  from r np lg ev show ?thesis
    unfolding it e n by simp
qed

section \<open>Delete\<close>

text \<open>
  Claim C8. For every list of paths \<open>delete_books\<close> raises \<open>UserFeedback\<close> with the
  title \<open>Cannot delete via USB web interface\<close> and the level \<open>WARNING\<close>: it never
  returns normally, it issues no request and has no other effect, and the plugin
  state, the booklist included, is what it was before the call.
\<close>

theorem delete_books_always_raises:
  "(\<exists>details. fst (delete_books st paths)
       = Inl (UserFeedback ''Cannot delete via USB web interface'' details ''WARNING''))
   \<and> fst (snd (delete_books st paths)) = st
   \<and> booklist (fst (snd (delete_books st paths))) = booklist st
   \<and> snd (snd (delete_books st paths)) = []"
  by (simp add: delete_books_def Let_def)

end
